theory Spec2Isabelle
  imports Complex_Main "HOL-Library.Word" "HOL-Library.Signed_Division"
begin

unbundle bit_operations_syntax

section \<open>The volume raycasting widget (src/src/GLWidget.cpp)\<close>

text \<open>
  The widget is a C++ class whose methods mutate its fields and the state of the OpenGL
  context. The embedding passes both explicitly: a record \<open>GLWidget\<close> of the fields,
  one of which (\<open>gl\<close>) is the state of the context. Every method becomes a function
  from the widget to the widget it leaves behind, or to \<open>None\<close> where it can crash.
  The context records every draw call with the state it ran under, so that the order
  of the passes and what each of them reads can be stated.

  Conventions.
  \<^item> C++ \<open>float\<close> and \<open>double\<close> values are modelled as \<open>real\<close>: rounding is not
    modelled. Every float constant and every comparison of the source is kept.
  \<^item> A C++ \<open>int\<close> is 32 bits wide. It is modelled as an \<open>int\<close> with the
    wrap-around written out: the result of every addition, subtraction and negation of
    C++ ints goes through \<open>wrap32\<close>, which is what the compiled code computes in
    two's complement (the C++ standard leaves signed overflow undefined). Values that
    are only stored and compared, such as the sample count, need no wrapping.
  \<^item> A pointer field is an \<open>option\<close>: \<open>None\<close> is the null (or not yet assigned)
    pointer. A method that dereferences a null pointer, or divides by zero, returns
    \<open>None\<close>: the program has crashed.
  \<^item> The class declaration (GLWidget.h) is not among the sources. The types of the
    fields are read off their uses in GLWidget.cpp; the rotation angles, which only
    ever receive integers there, are taken as \<open>int\<close>.
\<close>

subsection \<open>Machine integers\<close>

text \<open>The values of a 32-bit C++ \<open>int\<close>, and the value such an \<open>int\<close> takes when
  the result of an operation is \<open>x\<close>.\<close>

definition int32 :: "int \<Rightarrow> bool" where
  "int32 x = (- (2 ^ 31) \<le> x \<and> x < 2 ^ 31)"

definition wrap32 :: "int \<Rightarrow> int" where
  "wrap32 x = (x + 2 ^ 31) mod 2 ^ 32 - 2 ^ 31"

subsection \<open>Values of Qt and OpenGL used by the widget\<close>

datatype techniques = MIP | ALPHA | AVERAGE

datatype shader = RaycastShader | RayVolumeExitPosMapShader

datatype cull_mode = GL_FRONT | GL_BACK

datatype capability = GL_DEPTH_TEST | GL_CULL_FACE

datatype buffer_bit = GL_COLOR_BUFFER_BIT | GL_DEPTH_BUFFER_BIT

datatype tex_target = Target1D | Target2D | Target3D

datatype tex_format = RGB8_UNorm | R32F | GL_RGBA8

datatype wrap_mode = Repeat

datatype tex_filter = Nearest | Linear

datatype attachment = Depth

type_synonym color = "real \<times> real \<times> real \<times> real"

text \<open>A decoded image: rows of RGB pixels. A null \<open>QImage\<close> is \<open>None\<close>.\<close>

type_synonym QImage = "(nat \<times> nat \<times> nat) list list"

text \<open>The files an image can be read from: \<open>QImage(fileName)\<close> is null when the
  file is missing or not an image.\<close>

type_synonym files = "string \<Rightarrow> QImage option"

record Volume =
  getWidth :: int
  getHeight :: int
  getDepth :: int
  getVoxels :: "real list"

record QVector3D =
  vx :: real
  vy :: real
  vz :: real

text \<open>The arguments from which \<open>drawVolumeBBoxCube\<close> builds the matrix
  \<open>projMat * viewMat * modelMat\<close>. The matrix product itself (trigonometry on floats)
  is not modelled.\<close>

record mvp =
  rotX :: int
  rotY :: int
  eyeZ :: real
  transX :: real
  transY :: real
  aspect :: int

datatype uniform_value =
  UInt int | UFloat real | UBool bool | UVec2 real real | UMat mvp

datatype tex_image =
  NoImage
| Image2D QImage
| Image3D int int int "real list"

text \<open>A render target is the default framebuffer of the widget or the colour texture
  of a framebuffer object. What it holds is recorded as the colour of the last clear and
  the serial numbers of the draw calls rasterised into it since.\<close>

datatype target = Screen | FboTexture nat

record surface =
  cleared :: "color option"
  drawn :: "nat list"

definition empty_surface :: surface where
  "empty_surface = \<lparr>cleared = None, drawn = []\<rparr>"

text \<open>One \<open>glDrawElements\<close> call, with the context state it ran under.\<close>

record draw =
  d_serial :: nat
  d_target :: target
  d_program :: "shader option"
  d_cull :: "cull_mode option"
  d_depth_test :: bool
  d_uniforms :: "string \<Rightarrow> uniform_value option"
  d_units :: "nat \<times> tex_target \<Rightarrow> nat option"
  d_surfaces :: "target \<Rightarrow> surface"
  d_images :: "nat \<Rightarrow> tex_image"

record gl_state =
  next_name :: nat
  clear_color :: color
  framebuffer :: target
  program :: "shader option"
  active_texture :: nat
  texture_units :: "nat \<times> tex_target \<Rightarrow> nat option"
  depth_test :: bool
  cull_enabled :: bool
  cull_face :: cull_mode
  uniforms :: "shader \<Rightarrow> string \<Rightarrow> uniform_value option"
  surfaces :: "target \<Rightarrow> surface"
  tex_images :: "nat \<Rightarrow> tex_image"
  draws :: "draw list"

text \<open>A \<open>QOpenGLTexture\<close> object: its OpenGL name, its target and the parameters the
  widget sets on it. The image it holds is in the context, under its name.\<close>

record QOpenGLTexture =
  textureId :: nat
  tex_target :: tex_target
  tex_format :: "tex_format option"
  tex_wrap :: "wrap_mode option"
  tex_min :: "tex_filter option"
  tex_mag :: "tex_filter option"

text \<open>A \<open>QOpenGLFramebufferObject\<close>: its OpenGL name, the name of its colour texture
  (\<open>texture()\<close>), its size and its format.\<close>

record QOpenGLFramebufferObject =
  fbo_handle :: nat
  fbo_texture :: nat
  fbo_width :: int
  fbo_height :: int
  fbo_attachment :: attachment
  fbo_textureTarget :: tex_target
  fbo_internalFormat :: tex_format

text \<open>What the handlers read of a \<open>QMouseEvent\<close>: \<open>x()\<close>, \<open>y()\<close> (together
  \<open>pos()\<close>), \<open>buttons()\<close> and \<open>modifiers()\<close>, the last two as bit masks.\<close>

record QMouseEvent =
  ev_x :: int
  ev_y :: int
  ev_buttons :: "32 word"
  ev_modifiers :: "32 word"

text \<open>The flag values of \<open>Qt::MouseButton\<close> and \<open>Qt::KeyboardModifier\<close>.\<close>

definition LeftButton :: "32 word" where
  "LeftButton = 0x00000001"

definition AltModifier :: "32 word" where
  "AltModifier = 0x08000000"

definition ControlModifier :: "32 word" where
  "ControlModifier = 0x04000000"

subsection \<open>The OpenGL calls the widget makes\<close>

definition glClearColor :: "real \<Rightarrow> real \<Rightarrow> real \<Rightarrow> real \<Rightarrow> gl_state \<Rightarrow> gl_state" where
  "glClearColor r g b a c = c\<lparr>clear_color := (r, g, b, a)\<rparr>"

text \<open>Only the colour buffer is tracked; clearing the depth buffer leaves no trace here.\<close>

definition glClear :: "buffer_bit list \<Rightarrow> gl_state \<Rightarrow> gl_state" where
  "glClear bits c =
     (if GL_COLOR_BUFFER_BIT \<in> set bits
      then c\<lparr>surfaces := (surfaces c)
             (framebuffer c := \<lparr>cleared = Some (clear_color c), drawn = []\<rparr>)\<rparr>
      else c)"

fun glEnable :: "capability \<Rightarrow> gl_state \<Rightarrow> gl_state" where
  "glEnable GL_DEPTH_TEST c = c\<lparr>depth_test := True\<rparr>"
| "glEnable GL_CULL_FACE c = c\<lparr>cull_enabled := True\<rparr>"

fun glDisable :: "capability \<Rightarrow> gl_state \<Rightarrow> gl_state" where
  "glDisable GL_DEPTH_TEST c = c\<lparr>depth_test := False\<rparr>"
| "glDisable GL_CULL_FACE c = c\<lparr>cull_enabled := False\<rparr>"

definition glCullFace :: "cull_mode \<Rightarrow> gl_state \<Rightarrow> gl_state" where
  "glCullFace m c = c\<lparr>cull_face := m\<rparr>"

definition glActiveTexture :: "nat \<Rightarrow> gl_state \<Rightarrow> gl_state" where
  "glActiveTexture u c = c\<lparr>active_texture := u\<rparr>"

definition glBindTexture :: "tex_target \<Rightarrow> nat \<Rightarrow> gl_state \<Rightarrow> gl_state" where
  "glBindTexture t n c =
     c\<lparr>texture_units := (texture_units c)((active_texture c, t) := Some n)\<rparr>"

text \<open>\<open>glTexImage3D(GL_TEXTURE_3D, ...)\<close> stores into the texture bound to the 3D target
  of the active unit.\<close>

definition glTexImage3D :: "int \<Rightarrow> int \<Rightarrow> int \<Rightarrow> real list \<Rightarrow> gl_state \<Rightarrow> gl_state" where
  "glTexImage3D w h d voxels c =
     (case texture_units c (active_texture c, Target3D) of
        None \<Rightarrow> c
      | Some n \<Rightarrow> c\<lparr>tex_images := (tex_images c)(n := Image3D w h d voxels)\<rparr>)"

definition glDrawElements :: "gl_state \<Rightarrow> gl_state" where
  "glDrawElements c =
     (let k = length (draws c);
          d = \<lparr>d_serial = k,
               d_target = framebuffer c,
               d_program = program c,
               d_cull = (if cull_enabled c then Some (cull_face c) else None),
               d_depth_test = depth_test c,
               d_uniforms = (case program c of None \<Rightarrow> (\<lambda>_. None) | Some p \<Rightarrow> uniforms c p),
               d_units = texture_units c,
               d_surfaces = surfaces c,
               d_images = tex_images c\<rparr>;
          old = surfaces c (framebuffer c)
      in c\<lparr>draws := draws c @ [d],
            surfaces := (surfaces c)(framebuffer c := old\<lparr>drawn := drawn old @ [k]\<rparr>)\<rparr>)"

text \<open>The Qt wrappers: binding a shader program, setting one of its uniforms, binding a
  framebuffer object or the default framebuffer, binding a texture to a unit.\<close>

definition shader_bind :: "shader \<Rightarrow> gl_state \<Rightarrow> gl_state" where
  "shader_bind p c = c\<lparr>program := Some p\<rparr>"

definition setUniformValue :: "shader \<Rightarrow> string \<Rightarrow> uniform_value \<Rightarrow> gl_state \<Rightarrow> gl_state" where
  "setUniformValue p name v c = c\<lparr>uniforms := (uniforms c)(p := (uniforms c p)(name \<mapsto> v))\<rparr>"

definition fbo_bind :: "QOpenGLFramebufferObject \<Rightarrow> gl_state \<Rightarrow> gl_state" where
  "fbo_bind f c = c\<lparr>framebuffer := FboTexture (fbo_texture f)\<rparr>"

definition bindDefault :: "gl_state \<Rightarrow> gl_state" where
  "bindDefault c = c\<lparr>framebuffer := Screen\<rparr>"

definition texture_bind :: "QOpenGLTexture \<Rightarrow> gl_state \<Rightarrow> gl_state" where
  "texture_bind t c = glBindTexture (tex_target t) (textureId t) c"

definition texture_bind_unit :: "QOpenGLTexture \<Rightarrow> nat \<Rightarrow> gl_state \<Rightarrow> gl_state" where
  "texture_bind_unit t u c = glBindTexture (tex_target t) (textureId t) (glActiveTexture u c)"

text \<open>\<open>new QOpenGLTexture(target)\<close> followed by \<open>create()\<close>: a fresh texture name,
  holding no image.\<close>

definition new_QOpenGLTexture :: "tex_target \<Rightarrow> gl_state \<Rightarrow> QOpenGLTexture \<times> gl_state" where
  "new_QOpenGLTexture t c =
     (\<lparr>textureId = next_name c, tex_target = t, tex_format = None, tex_wrap = None,
       tex_min = None, tex_mag = None\<rparr>,
      c\<lparr>next_name := next_name c + 1,
        tex_images := (tex_images c)(next_name c := NoImage)\<rparr>)"

text \<open>\<open>QOpenGLTexture::setData(QImage)\<close> warns and returns when the image is null.\<close>

definition texture_setData :: "QOpenGLTexture \<Rightarrow> QImage option \<Rightarrow> gl_state \<Rightarrow> gl_state" where
  "texture_setData t img c =
     (case img of
        None \<Rightarrow> c
      | Some i \<Rightarrow> c\<lparr>tex_images := (tex_images c)(textureId t := Image2D i)\<rparr>)"

text \<open>\<open>new QOpenGLFramebufferObject(w, h, ...)\<close>: a fresh framebuffer with a fresh
  colour texture of that size and a depth attachment. The texture target and the
  internal format are \<open>GL_TEXTURE_2D\<close> and \<open>GL_RGBA8\<close>, given or by default. The
  framebuffer binding of the context is as before.\<close>

definition new_QOpenGLFramebufferObject ::
    "int \<Rightarrow> int \<Rightarrow> gl_state \<Rightarrow> QOpenGLFramebufferObject \<times> gl_state" where
  "new_QOpenGLFramebufferObject w h c =
     (\<lparr>fbo_handle = next_name c, fbo_texture = next_name c + 1,
       fbo_width = w, fbo_height = h, fbo_attachment = Depth,
       fbo_textureTarget = Target2D, fbo_internalFormat = GL_RGBA8\<rparr>,
      c\<lparr>next_name := next_name c + 2,
        surfaces := (surfaces c)(FboTexture (next_name c + 1) := empty_surface)\<rparr>)"

subsection \<open>The widget\<close>

text \<open>The fields of the widget that GLWidget.cpp reads or writes, with the context
  (\<open>gl\<close>) and the size of the widget (\<open>width()\<close>, \<open>height()\<close>), which Qt keeps.
  \<open>backgroundColor\<close> is given by its \<open>red()\<close>, \<open>green()\<close> and \<open>blue()\<close>.\<close>

record GLWidget =
  gl :: gl_state
  width :: int
  height :: int
  backgroundColor :: "int \<times> int \<times> int"
  volume :: "Volume option"
  volume3DTex :: "QOpenGLTexture option"
  transferFunction1DTex :: "QOpenGLTexture option"
  rayVolumeExitPosMapFramebuffer :: "QOpenGLFramebufferObject option"
  numSamples :: int
  tmpNumSamples :: int
  sampleRangeStart :: real
  sampleRangeEnd :: real
  technique :: techniques
  viewOffset :: QVector3D
  volumeRotAngleX :: int
  volumeRotAngleY :: int
  lastMousePos :: "int \<times> int"

text \<open>GLWidget.cpp:89-99.\<close>

definition loadTransferFunction1DTex :: "files \<Rightarrow> string \<Rightarrow> GLWidget \<Rightarrow> GLWidget" where
  "loadTransferFunction1DTex fs fileName s =
     (let (t, c) = new_QOpenGLTexture Target1D (gl s);
          t = t\<lparr>tex_format := Some RGB8_UNorm\<rparr>;
          c = texture_setData t (fs fileName) c;
          t = t\<lparr>tex_wrap := Some Repeat\<rparr>;
          t = t\<lparr>tex_min := Some Nearest\<rparr>;
          t = t\<lparr>tex_mag := Some Nearest\<rparr>
      in s\<lparr>transferFunction1DTex := Some t, gl := c\<rparr>)"

text \<open>GLWidget.cpp:101-113.\<close>

definition initRayVolumeExitPosMapFramebuffer :: "GLWidget \<Rightarrow> GLWidget" where
  "initRayVolumeExitPosMapFramebuffer s =
     (let (f, c) = new_QOpenGLFramebufferObject (width s) (height s) (gl s)
      in s\<lparr>rayVolumeExitPosMapFramebuffer := Some f, gl := c\<rparr>)"

text \<open>GLWidget.cpp:5-37. \<open>has_glf\<close> says whether the context provides the OpenGL 3.3
  core functions; without them the process exits. The shader programs and the vertex
  array of the cube are created here once and never reassigned: they are the constants
  of type \<open>shader\<close> and the geometry every \<open>glDrawElements\<close> call draws.\<close>

definition initializeGL :: "files \<Rightarrow> bool \<Rightarrow> GLWidget \<Rightarrow> GLWidget option" where
  "initializeGL fs has_glf s =
     (if \<not> has_glf then None
      else
        let s = loadTransferFunction1DTex fs ''../transferfunctions/tff_flame.png'' s;
            s = initRayVolumeExitPosMapFramebuffer s
        in Some (s\<lparr>viewOffset := \<lparr>vx = 0, vy = 0, vz = 1.8\<rparr>\<rparr>))"

text \<open>GLWidget.cpp:115-134.\<close>

definition loadVolume3DTex :: "GLWidget \<Rightarrow> GLWidget" where
  "loadVolume3DTex s =
     (case volume s of
        None \<Rightarrow> s
      | Some v \<Rightarrow>
          let (t, c) = new_QOpenGLTexture Target3D (gl s);
              t = t\<lparr>tex_format := Some R32F\<rparr>;
              t = t\<lparr>tex_wrap := Some Repeat\<rparr>;
              t = t\<lparr>tex_min := Some Linear\<rparr>;
              t = t\<lparr>tex_mag := Some Linear\<rparr>;
              c = texture_bind t c;
              c = glTexImage3D (getWidth v) (getHeight v) (getDepth v) (getVoxels v) c
          in s\<lparr>volume3DTex := Some t, gl := c\<rparr>)"

text \<open>GLWidget.cpp:136-142.\<close>

definition dataLoaded :: "Volume option \<Rightarrow> GLWidget \<Rightarrow> GLWidget" where
  "dataLoaded volumeData s = loadVolume3DTex (s\<lparr>volume := volumeData\<rparr>)"

text \<open>GLWidget.cpp:215-243. \<open>this->width()/this->height()\<close> is a division of C++ ints:
  it truncates towards zero and must not divide by zero. The vertex array of the cube is
  the only geometry there is, so its binding is not tracked: \<open>glDrawElements\<close> draws
  the cube.\<close>

definition drawVolumeBBoxCube :: "GLWidget \<Rightarrow> cull_mode \<Rightarrow> shader \<Rightarrow> gl_state \<Rightarrow> gl_state option" where
  "drawVolumeBBoxCube s glFaceCullMode sh c =
     (let c = glClear [GL_COLOR_BUFFER_BIT, GL_DEPTH_BUFFER_BIT] c in
      if height s = 0 then None
      else
        let m = \<lparr>rotX = wrap32 (90 - volumeRotAngleX s), rotY = volumeRotAngleY s,
                 eyeZ = vz (viewOffset s),
                 transX = vx (viewOffset s), transY = vy (viewOffset s),
                 aspect = wrap32 (width s sdiv height s)\<rparr>;
            c = shader_bind sh c;
            c = setUniformValue sh ''modelViewProjMat'' (UMat m) c;
            c = glEnable GL_CULL_FACE c;
            c = glCullFace glFaceCullMode c;
            c = glDrawElements c;
            c = glDisable GL_CULL_FACE c
        in Some c)"

text \<open>The uniforms the technique selects, GLWidget.cpp:181-190.\<close>

fun technique_uniforms :: "techniques \<Rightarrow> gl_state \<Rightarrow> gl_state" where
  "technique_uniforms MIP c =
     setUniformValue RaycastShader ''avgTech'' (UBool False)
       (setUniformValue RaycastShader ''alphaTech'' (UBool False) c)"
| "technique_uniforms ALPHA c =
     setUniformValue RaycastShader ''avgTech'' (UBool False)
       (setUniformValue RaycastShader ''alphaTech'' (UBool True) c)"
| "technique_uniforms AVERAGE c =
     setUniformValue RaycastShader ''avgTech'' (UBool True)
       (setUniformValue RaycastShader ''alphaTech'' (UBool False) c)"

text \<open>The second pass of \<open>paintGL\<close>, GLWidget.cpp:174-205, given the framebuffer object
  and the two textures its pointers lead to.\<close>

definition secondPass ::
    "GLWidget \<Rightarrow> QOpenGLFramebufferObject \<Rightarrow> QOpenGLTexture \<Rightarrow> QOpenGLTexture \<Rightarrow> gl_state \<Rightarrow> gl_state option" where
  "secondPass s f tf vt c =
     (let c = bindDefault c;
          c = shader_bind RaycastShader c;
          c = setUniformValue RaycastShader ''screenDimensions''
                (UVec2 (real_of_int (width s)) (real_of_int (height s))) c;
          c = setUniformValue RaycastShader ''numSamples'' (UInt (numSamples s)) c;
          c = setUniformValue RaycastShader ''sampleRangeStart'' (UFloat (sampleRangeStart s)) c;
          c = setUniformValue RaycastShader ''sampleRangeEnd'' (UFloat (sampleRangeEnd s)) c;
          c = technique_uniforms (technique s) c;
          c = glActiveTexture 0 c;
          c = texture_bind_unit tf 0 c;
          c = setUniformValue RaycastShader ''transferFunction'' (UInt 0) c;
          c = setUniformValue RaycastShader ''exitPositions'' (UInt 1) c;
          c = glActiveTexture 1 c;
          c = glBindTexture Target2D (fbo_texture f) c;
          c = setUniformValue RaycastShader ''volume'' (UInt 2) c;
          c = texture_bind_unit vt 2 c
      in drawVolumeBBoxCube s GL_BACK RaycastShader c)"

text \<open>GLWidget.cpp:144-213. \<open>QColor::red()\<close>, \<open>green()\<close> and \<open>blue()\<close> are the
  channels of the background colour as integers from 0 to 255.\<close>

definition paintGL :: "GLWidget \<Rightarrow> GLWidget option" where
  "paintGL s =
     (let (red, green, blue) = backgroundColor s;
          c = glClearColor (real_of_int red / 256) (real_of_int green / 256)
                (real_of_int blue / 256) 1 (gl s);
          c = glClear [GL_COLOR_BUFFER_BIT] c
      in if volume s = None then Some (s\<lparr>gl := c\<rparr>)
         else
           let c = glEnable GL_DEPTH_TEST c in
           case rayVolumeExitPosMapFramebuffer s of
             None \<Rightarrow> None
           | Some f \<Rightarrow>
               let c = fbo_bind f c;
                   c = shader_bind RayVolumeExitPosMapShader c
               in case drawVolumeBBoxCube s GL_FRONT RayVolumeExitPosMapShader c of
                    None \<Rightarrow> None
                  | Some c \<Rightarrow>
                      (case transferFunction1DTex s of
                         None \<Rightarrow> None
                       | Some tf \<Rightarrow>
                           (case volume3DTex s of
                              None \<Rightarrow> None
                            | Some vt \<Rightarrow>
                                map_option (\<lambda>c. s\<lparr>gl := c\<rparr>) (secondPass s f tf vt c))))"

text \<open>\<open>QWidget::repaint()\<close> paints at once, through \<open>paintGL\<close>.\<close>

definition repaint :: "GLWidget \<Rightarrow> GLWidget option" where
  "repaint s = paintGL s"

text \<open>GLWidget.cpp:245-251.\<close>

definition resizeGL :: "int \<Rightarrow> int \<Rightarrow> GLWidget \<Rightarrow> GLWidget" where
  "resizeGL w h s =
     (let (f, c) = new_QOpenGLFramebufferObject w h (gl s)
      in s\<lparr>rayVolumeExitPosMapFramebuffer := Some f, gl := c\<rparr>)"

text \<open>GLWidget.cpp:253-275. \<open>float(x)\<close> narrows a double to a float; both are reals
  here.\<close>

definition setNumSamples :: "int \<Rightarrow> GLWidget \<Rightarrow> GLWidget option" where
  "setNumSamples n s = repaint (s\<lparr>numSamples := n\<rparr>)"

definition setSampleRangeStart :: "real \<Rightarrow> GLWidget \<Rightarrow> GLWidget option" where
  "setSampleRangeStart x s = repaint (s\<lparr>sampleRangeStart := x\<rparr>)"

definition setSampleRangeEnd :: "real \<Rightarrow> GLWidget \<Rightarrow> GLWidget option" where
  "setSampleRangeEnd x s = repaint (s\<lparr>sampleRangeEnd := x\<rparr>)"

definition setTechnique :: "techniques \<Rightarrow> GLWidget \<Rightarrow> GLWidget option" where
  "setTechnique t s = repaint (s\<lparr>technique := t\<rparr>)"

text \<open>GLWidget.cpp:277-283. \<open>fileName\<close> is what the file dialog returned: the empty
  string when the user cancelled it.\<close>

definition loadTransferFunctionImage :: "files \<Rightarrow> string \<Rightarrow> GLWidget \<Rightarrow> GLWidget option" where
  "loadTransferFunctionImage fs fileName s = repaint (loadTransferFunction1DTex fs fileName s)"

text \<open>GLWidget.cpp:285-289.\<close>

definition mousePressEvent :: "QMouseEvent \<Rightarrow> GLWidget \<Rightarrow> GLWidget" where
  "mousePressEvent event s =
     (let s = s\<lparr>tmpNumSamples := (if numSamples s > 5 then numSamples s else tmpNumSamples s)\<rparr>
      in s\<lparr>lastMousePos := (ev_x event, ev_y event)\<rparr>)"

text \<open>The three branches of \<open>mouseMoveEvent\<close>: zoom (GLWidget.cpp:299-301), pan
  (303-307) and rotate (309-314). \<open>dx\<close> and \<open>dy\<close> are C++ ints; \<open>-dy\<close> is negated as
  an int before it becomes a float, and the angles are summed as ints.\<close>

definition zoom :: "int \<Rightarrow> GLWidget \<Rightarrow> GLWidget" where
  "zoom dy s =
     (let off = viewOffset s;
          off = \<lparr>vx = vx off + 0, vy = vy off + 0,
                 vz = vz off + real_of_int (wrap32 (- dy)) / 40\<rparr>;
          off = (if vz off > 3 then off\<lparr>vz := 3\<rparr> else off);
          off = (if vz off < 0.8 then off\<lparr>vz := 0.8\<rparr> else off)
      in s\<lparr>viewOffset := off\<rparr>)"

definition pan :: "int \<Rightarrow> int \<Rightarrow> GLWidget \<Rightarrow> GLWidget" where
  "pan dx dy s =
     (let off = viewOffset s;
          off = \<lparr>vx = vx off + real_of_int dx / 60,
                 vy = vy off + real_of_int (wrap32 (- dy)) / 60,
                 vz = vz off + 0 / 60\<rparr>;
          off = (if vx off > 1 then off\<lparr>vx := 1\<rparr> else off);
          off = (if vx off < - 1 then off\<lparr>vx := - 1\<rparr> else off);
          off = (if vy off > 1 then off\<lparr>vy := 1\<rparr> else off);
          off = (if vy off < - 1 then off\<lparr>vy := - 1\<rparr> else off)
      in s\<lparr>viewOffset := off\<rparr>)"

definition rotate_view :: "int \<Rightarrow> int \<Rightarrow> GLWidget \<Rightarrow> GLWidget" where
  "rotate_view dx dy s =
     (let s = (if (dy > 0 \<and> volumeRotAngleX s < 90) \<or> (dy < 0 \<and> volumeRotAngleX s > - 90)
               then s\<lparr>volumeRotAngleX := wrap32 (volumeRotAngleX s + dy)\<rparr> else s);
          s = s\<lparr>volumeRotAngleY := wrap32 (volumeRotAngleY s + dx)\<rparr>;
          s = (if volumeRotAngleX s < - 90 then s\<lparr>volumeRotAngleX := - 90\<rparr> else s);
          s = (if volumeRotAngleX s > 90 then s\<lparr>volumeRotAngleX := 90\<rparr> else s)
      in s)"

text \<open>GLWidget.cpp:291-320.\<close>

definition mouseMoveEvent :: "QMouseEvent \<Rightarrow> GLWidget \<Rightarrow> GLWidget option" where
  "mouseMoveEvent event s =
     (let s = s\<lparr>numSamples := 5\<rparr>;
          dx = wrap32 (ev_x event - fst (lastMousePos s));
          dy = wrap32 (ev_y event - snd (lastMousePos s));
          s = (if ev_buttons event AND LeftButton \<noteq> 0 then
                 (if ev_modifiers event AND AltModifier \<noteq> 0 then zoom dy s
                  else if ev_modifiers event AND ControlModifier \<noteq> 0 then pan dx dy s
                  else rotate_view dx dy s)
               else s);
          s = s\<lparr>lastMousePos := (ev_x event, ev_y event)\<rparr>
      in repaint s)"

text \<open>GLWidget.cpp:322-326.\<close>

definition mouseReleaseEvent :: "GLWidget \<Rightarrow> GLWidget option" where
  "mouseReleaseEvent s = repaint (s\<lparr>numSamples := tmpNumSamples s\<rparr>)"

subsection \<open>Event sequences, invariants and example states\<close>

text \<open>Qt delivers pointer events one at a time, each to its handler; a handler that
  crashes ends the run.\<close>

datatype pointer_event = Press QMouseEvent | Move QMouseEvent | Release

fun handle_event :: "pointer_event \<Rightarrow> GLWidget \<Rightarrow> GLWidget option" where
  "handle_event (Press e) s = Some (mousePressEvent e s)"
| "handle_event (Move e) s = mouseMoveEvent e s"
| "handle_event Release s = mouseReleaseEvent s"

fun run_events :: "pointer_event list \<Rightarrow> GLWidget \<Rightarrow> GLWidget option" where
  "run_events [] s = Some s"
| "run_events (e # es) s =
     (case handle_event e s of None \<Rightarrow> None | Some s' \<Rightarrow> run_events es s')"

text \<open>The moves of one drag, between a press and a release.\<close>

fun drag :: "QMouseEvent list \<Rightarrow> GLWidget \<Rightarrow> GLWidget option" where
  "drag [] s = Some s"
| "drag (e # es) s =
     (case mouseMoveEvent e s of None \<Rightarrow> None | Some s' \<Rightarrow> drag es s')"

text \<open>Everything the host can ask of the widget once it is initialised. Qt changes the
  size of the widget before it calls \<open>resizeGL\<close> with that size, and calls it for no
  empty size.\<close>

datatype call =
  Pointer pointer_event
| Resize int int
| DataLoaded "Volume option"
| SetNumSamples int
| SetSampleRangeStart real
| SetSampleRangeEnd real
| SetTechnique techniques
| LoadTransferFunctionImage files string
| Paint

fun call_widget :: "call \<Rightarrow> GLWidget \<Rightarrow> GLWidget option" where
  "call_widget (Pointer e) s = handle_event e s"
| "call_widget (Resize w h) s =
     (if 0 < w \<and> 0 < h then Some (resizeGL w h (s\<lparr>width := w, height := h\<rparr>)) else Some s)"
| "call_widget (DataLoaded v) s = Some (dataLoaded v s)"
| "call_widget (SetNumSamples n) s = setNumSamples n s"
| "call_widget (SetSampleRangeStart x) s = setSampleRangeStart x s"
| "call_widget (SetSampleRangeEnd x) s = setSampleRangeEnd x s"
| "call_widget (SetTechnique t) s = setTechnique t s"
| "call_widget (LoadTransferFunctionImage fs fileName) s = loadTransferFunctionImage fs fileName s"
| "call_widget Paint s = paintGL s"

fun run_calls :: "call list \<Rightarrow> GLWidget \<Rightarrow> GLWidget option" where
  "run_calls [] s = Some s"
| "run_calls (c # cs) s =
     (case call_widget c s of None \<Rightarrow> None | Some s' \<Rightarrow> run_calls cs s')"

text \<open>A sequence of calls that loads no volume: any call but \<open>dataLoaded\<close> of a grid
  that is not null.\<close>

fun loads_volume :: "call \<Rightarrow> bool" where
  "loads_volume (DataLoaded (Some v)) = True"
| "loads_volume c = False"

definition loads_no_volume :: "call list \<Rightarrow> bool" where
  "loads_no_volume cs = (filter loads_volume cs = [])"

text \<open>The number of draw calls made so far.\<close>

definition draw_count :: "GLWidget \<Rightarrow> nat" where
  "draw_count s = length (draws (gl s))"

text \<open>What \<open>paintGL\<close> needs in order to return: without a volume nothing; with a
  volume, a widget that is not empty (Qt paints no other) and the three objects the
  passes dereference.\<close>

definition paint_ok :: "GLWidget \<Rightarrow> bool" where
  "paint_ok s =
     (volume s = None \<or>
      (height s \<noteq> 0 \<and> rayVolumeExitPosMapFramebuffer s \<noteq> None \<and>
       transferFunction1DTex s \<noteq> None \<and> volume3DTex s \<noteq> None))"

text \<open>What holds of the pointers once the widget is initialised and not empty: the
  framebuffer object and the ramp texture exist, and so does the volume texture whenever
  there is a volume.\<close>

definition initialised :: "GLWidget \<Rightarrow> bool" where
  "initialised s =
     (height s \<noteq> 0 \<and> rayVolumeExitPosMapFramebuffer s \<noteq> None \<and>
      transferFunction1DTex s \<noteq> None \<and> (volume s = None \<or> volume3DTex s \<noteq> None))"

text \<open>The bounds on the view state: horizontal rotation angle, pan and zoom.\<close>

definition view_inv :: "GLWidget \<Rightarrow> bool" where
  "view_inv s =
     (- 90 \<le> volumeRotAngleX s \<and> volumeRotAngleX s \<le> 90 \<and>
      - 1 \<le> vx (viewOffset s) \<and> vx (viewOffset s) \<le> 1 \<and>
      - 1 \<le> vy (viewOffset s) \<and> vy (viewOffset s) \<le> 1 \<and>
      0.8 \<le> vz (viewOffset s) \<and> vz (viewOffset s) \<le> 3)"

text \<open>The value of a uniform in each draw call made so far, oldest first.\<close>

definition uniform_history :: "string \<Rightarrow> GLWidget \<Rightarrow> uniform_value option list" where
  "uniform_history name s = map (\<lambda>d. d_uniforms d name) (draws (gl s))"

text \<open>OpenGL stores a colour component \<open>f\<close> of \<open>[0, 1]\<close> in an 8-bit normalised
  channel as \<open>f * 255\<close> rounded to the nearest integer.\<close>

definition unorm8 :: "real \<Rightarrow> int" where
  "unorm8 f = \<lfloor>f * 255 + 1 / 2\<rfloor>"

text \<open>Example states for the concrete instances below: a fresh context; a widget of
  800 by 600 pixels as constructed, before \<open>initializeGL\<close>, with a white background;
  a directory holding one ramp image; a volume of two by two by two voxels.\<close>

definition fresh_gl :: gl_state where
  "fresh_gl =
     \<lparr>next_name = 1, clear_color = (0, 0, 0, 0), framebuffer = Screen, program = None,
      active_texture = 0, texture_units = (\<lambda>_. None), depth_test = False,
      cull_enabled = False, cull_face = GL_BACK, uniforms = (\<lambda>_ _. None),
      surfaces = (\<lambda>_. empty_surface), tex_images = (\<lambda>_. NoImage), draws = []\<rparr>"

definition constructed :: GLWidget where
  "constructed =
     \<lparr>gl = fresh_gl, width = 800, height = 600, backgroundColor = (255, 255, 255),
      volume = None, volume3DTex = None, transferFunction1DTex = None,
      rayVolumeExitPosMapFramebuffer = None, numSamples = 100, tmpNumSamples = 100,
      sampleRangeStart = 0, sampleRangeEnd = 1, technique = MIP,
      viewOffset = \<lparr>vx = 0, vy = 0, vz = 0\<rparr>,
      volumeRotAngleX = 0, volumeRotAngleY = 0, lastMousePos = (0, 0)\<rparr>"

definition ramp_files :: files where
  "ramp_files name =
     (if name = ''../transferfunctions/tff_flame.png''
      then Some [[(0, 0, 0), (255, 128, 0), (255, 255, 255)]] else None)"

text \<open>An empty grid that is not null: no voxels, all dimensions 0.\<close>

definition empty_grid :: Volume where
  "empty_grid = \<lparr>getWidth = 0, getHeight = 0, getDepth = 0, getVoxels = []\<rparr>"

definition cube2 :: Volume where
  "cube2 = \<lparr>getWidth = 2, getHeight = 2, getDepth = 2,
            getVoxels = [0.5, 0.5, 0.5, 0.5, 0.5, 0.5, 0.5, 0.5]\<rparr>"

text \<open>The widget after \<open>initializeGL\<close> on \<open>constructed\<close>, written out, and the same
  widget after \<open>dataLoaded\<close> of \<open>cube2\<close>.\<close>

definition started :: GLWidget where
  "started =
     initRayVolumeExitPosMapFramebuffer
       (loadTransferFunction1DTex ramp_files ''../transferfunctions/tff_flame.png'' constructed)
       \<lparr>viewOffset := \<lparr>vx = 0, vy = 0, vz = 1.8\<rparr>\<rparr>"

definition loaded :: GLWidget where
  "loaded = dataLoaded (Some cube2) started"

text \<open>The context as the first pass of \<open>paintGL\<close> finds it, GLWidget.cpp:146-162:
  cleared to the background colour, depth test enabled, the framebuffer object and the
  exit-position shader bound.\<close>

definition first_pass_context :: "GLWidget \<Rightarrow> QOpenGLFramebufferObject \<Rightarrow> gl_state" where
  "first_pass_context s f =
     (case backgroundColor s of (red, green, blue) \<Rightarrow>
        shader_bind RayVolumeExitPosMapShader (fbo_bind f (glEnable GL_DEPTH_TEST
          (glClear [GL_COLOR_BUFFER_BIT]
            (glClearColor (real_of_int red / 256) (real_of_int green / 256)
               (real_of_int blue / 256) 1 (gl s))))))"

section \<open>Properties\<close>

subsection \<open>32-bit wrap-around\<close>

lemma int32_wrap32: "int32 (wrap32 x)"
proof -
  have "0 \<le> (x + 2 ^ 31) mod (2 ^ 32 :: int)" and "(x + 2 ^ 31) mod (2 ^ 32 :: int) < 2 ^ 32"
    by simp_all
  then show ?thesis by (simp add: int32_def wrap32_def)
qed

lemma wrap32_int32: "int32 x \<Longrightarrow> wrap32 x = x"
proof -
  assume "int32 x"
  then have "0 \<le> x + 2 ^ 31" and "x + 2 ^ 31 < 2 ^ 32" by (simp_all add: int32_def)
  then have "(x + 2 ^ 31) mod 2 ^ 32 = x + 2 ^ 31" by (simp only: mod_pos_pos_trivial)
  then show ?thesis by (simp add: wrap32_def)
qed

lemma wrap32_diff_left: "wrap32 (wrap32 a - b) = wrap32 (a - b)"
proof -
  have "(wrap32 a - b + 2 ^ 31) mod 2 ^ 32 = ((a + 2 ^ 31) mod 2 ^ 32 - b) mod 2 ^ 32"
    by (simp add: wrap32_def)
  also have "\<dots> = (a + 2 ^ 31 - b) mod 2 ^ 32" by (simp only: mod_diff_left_eq)
  also have "\<dots> = (a - b + 2 ^ 31) mod 2 ^ 32" by (simp add: algebra_simps)
  finally show ?thesis by (simp add: wrap32_def)
qed

lemma wrap32_add_right: "wrap32 (a + wrap32 b) = wrap32 (a + b)"
proof -
  have "(a + wrap32 b + 2 ^ 31) mod 2 ^ 32 = (a + (b + 2 ^ 31) mod 2 ^ 32) mod 2 ^ 32"
    by (simp add: wrap32_def)
  also have "\<dots> = (a + (b + 2 ^ 31)) mod 2 ^ 32" by (simp only: mod_add_right_eq)
  also have "\<dots> = (a + b + 2 ^ 31) mod 2 ^ 32" by (simp add: algebra_simps)
  finally show ?thesis by (simp add: wrap32_def)
qed

text \<open>The wrap-around at the ends of the range, as the 32-bit code has it.\<close>

lemma wrap32_at_the_ends:
  "wrap32 (2147483647 + 1) = - 2147483648"
  "wrap32 (- (- 2147483648)) = - 2147483648"
  "wrap32 (- 2147483648 - 1) = 2147483647"
  by (simp_all add: wrap32_def)

subsection \<open>What painting changes\<close>

lemmas gl_defs = glClearColor_def glClear_def glCullFace_def glActiveTexture_def glBindTexture_def
  glDrawElements_def shader_bind_def setUniformValue_def fbo_bind_def bindDefault_def
  texture_bind_def texture_bind_unit_def

lemma technique_uniforms_kept:
  "draws (technique_uniforms t c) = draws c"
  "surfaces (technique_uniforms t c) = surfaces c"
  "framebuffer (technique_uniforms t c) = framebuffer c"
  "texture_units (technique_uniforms t c) = texture_units c"
  "active_texture (technique_uniforms t c) = active_texture c"
  "program (technique_uniforms t c) = program c"
  "cull_enabled (technique_uniforms t c) = cull_enabled c"
  "cull_face (technique_uniforms t c) = cull_face c"
  "depth_test (technique_uniforms t c) = depth_test c"
  "tex_images (technique_uniforms t c) = tex_images c"
  "next_name (technique_uniforms t c) = next_name c"
  "clear_color (technique_uniforms t c) = clear_color c"
  by (cases t; simp add: setUniformValue_def)+

lemma technique_uniforms_other:
  "name \<noteq> ''avgTech'' \<Longrightarrow> name \<noteq> ''alphaTech'' \<Longrightarrow>
   uniforms (technique_uniforms t c) RaycastShader name = uniforms c RaycastShader name"
  by (cases t; simp add: setUniformValue_def)

lemma drawVolumeBBoxCube_None: "height s = 0 \<Longrightarrow> drawVolumeBBoxCube s m sh c = None"
  by (simp add: drawVolumeBBoxCube_def)

lemma drawVolumeBBoxCube_Some:
  assumes "height s \<noteq> 0"
  shows "\<exists>c' d. drawVolumeBBoxCube s m sh c = Some c' \<and> draws c' = draws c @ [d] \<and>
    d_serial d = length (draws c) \<and> d_target d = framebuffer c \<and> d_program d = Some sh \<and>
    d_cull d = Some m \<and>
    (\<forall>name. name \<noteq> ''modelViewProjMat'' \<longrightarrow> d_uniforms d name = uniforms c sh name) \<and>
    d_units d = texture_units c \<and>
    (\<forall>t. t \<noteq> framebuffer c \<longrightarrow> d_surfaces d t = surfaces c t) \<and>
    surfaces c' = (surfaces c)
      (framebuffer c := \<lparr>cleared = Some (clear_color c), drawn = [length (draws c)]\<rparr>) \<and>
    framebuffer c' = framebuffer c \<and> clear_color c' = clear_color c \<and>
    next_name c' = next_name c \<and> tex_images c' = tex_images c"
  using assms by (simp add: drawVolumeBBoxCube_def Let_def gl_defs)


lemma secondPass_None: "height s = 0 \<Longrightarrow> secondPass s f tf vt c = None"
  by (simp add: secondPass_def Let_def drawVolumeBBoxCube_None)

lemma secondPass_Some:
  assumes "height s \<noteq> 0"
  shows "\<exists>c' d. secondPass s f tf vt c = Some c' \<and> draws c' = draws c @ [d] \<and>
    d_serial d = length (draws c) \<and> d_target d = Screen \<and>
    d_program d = Some RaycastShader \<and> d_cull d = Some GL_BACK \<and>
    d_uniforms d ''exitPositions'' = Some (UInt 1) \<and>
    d_uniforms d ''numSamples'' = Some (UInt (numSamples s)) \<and>
    d_uniforms d ''sampleRangeStart'' = Some (UFloat (sampleRangeStart s)) \<and>
    d_uniforms d ''sampleRangeEnd'' = Some (UFloat (sampleRangeEnd s)) \<and>
    d_units d (1, Target2D) = Some (fbo_texture f) \<and>
    (\<forall>t. t \<noteq> Screen \<longrightarrow> d_surfaces d t = surfaces c t) \<and>
    surfaces c' = (surfaces c)
      (Screen := \<lparr>cleared = Some (clear_color c), drawn = [length (draws c)]\<rparr>) \<and>
    framebuffer c' = Screen \<and> clear_color c' = clear_color c \<and>
    next_name c' = next_name c \<and> tex_images c' = tex_images c"
  using assms
  by (simp add: secondPass_def drawVolumeBBoxCube_def Let_def gl_defs
      technique_uniforms_kept technique_uniforms_other)


lemma paintGL_fields: "paintGL s = Some s' \<Longrightarrow> s' = s\<lparr>gl := gl s'\<rparr>"
  by (auto simp: paintGL_def Let_def split: prod.splits option.splits if_splits)

lemma first_pass_context_fields:
  "draws (first_pass_context s f) = draws (gl s)"
  "framebuffer (first_pass_context s f) = FboTexture (fbo_texture f)"
  "next_name (first_pass_context s f) = next_name (gl s)"
  "tex_images (first_pass_context s f) = tex_images (gl s)"
  "uniforms (first_pass_context s f) = uniforms (gl s)"
  "clear_color (first_pass_context s f) =
     (case backgroundColor s of (r, g, b) \<Rightarrow>
        (real_of_int r / 256, real_of_int g / 256, real_of_int b / 256, 1))"
  by (simp_all add: first_pass_context_def gl_defs split: prod.splits)

lemma paintGL_volume:
  assumes "volume s \<noteq> None" and "rayVolumeExitPosMapFramebuffer s = Some f"
    and "transferFunction1DTex s = Some tf" and "volume3DTex s = Some vt"
  shows "paintGL s =
    (case drawVolumeBBoxCube s GL_FRONT RayVolumeExitPosMapShader (first_pass_context s f) of
       None \<Rightarrow> None
     | Some c \<Rightarrow> map_option (\<lambda>c. s\<lparr>gl := c\<rparr>) (secondPass s f tf vt c))"
  using assms
  by (cases "backgroundColor s")
     (auto simp: paintGL_def first_pass_context_def Let_def split: option.splits)

lemma paintGL_no_volume:
  assumes "volume s = None"
  shows "\<exists>s'. paintGL s = Some s' \<and> draws (gl s') = draws (gl s) \<and>
           surfaces (gl s') (framebuffer (gl s)) =
             \<lparr>cleared = Some (clear_color (gl s')), drawn = []\<rparr> \<and>
           clear_color (gl s') =
             (case backgroundColor s of (r, g, b) \<Rightarrow>
                (real_of_int r / 256, real_of_int g / 256, real_of_int b / 256, 1)) \<and>
           next_name (gl s') = next_name (gl s) \<and> tex_images (gl s') = tex_images (gl s) \<and>
           framebuffer (gl s') = framebuffer (gl s)"
  using assms by (simp add: paintGL_def Let_def gl_defs split: prod.splits)

lemma paintGL_crashes: "\<not> paint_ok s \<Longrightarrow> paintGL s = None"
  by (auto simp: paint_ok_def paintGL_def Let_def drawVolumeBBoxCube_None secondPass_None
      split: prod.splits option.splits)

lemma paintGL_passes:
  assumes "volume s \<noteq> None" and "paint_ok s" and "rayVolumeExitPosMapFramebuffer s = Some f"
  shows "\<exists>s' d1 d2. paintGL s = Some s' \<and> draws (gl s') = draws (gl s) @ [d1, d2] \<and>
     d_serial d1 = length (draws (gl s)) \<and> d_serial d2 = length (draws (gl s)) + 1 \<and>
     d_target d1 = FboTexture (fbo_texture f) \<and> d_cull d1 = Some GL_FRONT \<and>
     d_program d1 = Some RayVolumeExitPosMapShader \<and>
     d_target d2 = Screen \<and> d_cull d2 = Some GL_BACK \<and> d_program d2 = Some RaycastShader \<and>
     d_uniforms d2 ''exitPositions'' = Some (UInt 1) \<and>
     d_units d2 (1, Target2D) = Some (fbo_texture f) \<and>
     drawn (d_surfaces d2 (FboTexture (fbo_texture f))) = [d_serial d1] \<and>
     d_uniforms d2 ''numSamples'' = Some (UInt (numSamples s)) \<and>
     d_uniforms d2 ''sampleRangeStart'' = Some (UFloat (sampleRangeStart s)) \<and>
     d_uniforms d2 ''sampleRangeEnd'' = Some (UFloat (sampleRangeEnd s)) \<and>
     d_uniforms d1 ''numSamples'' = uniforms (gl s) RayVolumeExitPosMapShader ''numSamples'' \<and>
     next_name (gl s') = next_name (gl s) \<and> tex_images (gl s') = tex_images (gl s)"
proof -
  from assms obtain tf vt where
    ptr: "transferFunction1DTex s = Some tf" "volume3DTex s = Some vt" and h: "height s \<noteq> 0"
    by (auto simp: paint_ok_def)
  let ?c0 = "first_pass_context s f"
  from drawVolumeBBoxCube_Some [OF h, of GL_FRONT RayVolumeExitPosMapShader ?c0]
  obtain c1 d1 where
    one: "drawVolumeBBoxCube s GL_FRONT RayVolumeExitPosMapShader ?c0 = Some c1"
      "draws c1 = draws ?c0 @ [d1]" "d_serial d1 = length (draws ?c0)"
      "d_target d1 = framebuffer ?c0" "d_program d1 = Some RayVolumeExitPosMapShader"
      "d_cull d1 = Some GL_FRONT"
      "surfaces c1 = (surfaces ?c0)
         (framebuffer ?c0 := \<lparr>cleared = Some (clear_color ?c0), drawn = [length (draws ?c0)]\<rparr>)"
      "next_name c1 = next_name ?c0" "tex_images c1 = tex_images ?c0"
      "\<forall>name. name \<noteq> ''modelViewProjMat'' \<longrightarrow>
         d_uniforms d1 name = uniforms ?c0 RayVolumeExitPosMapShader name"
    by blast
  from secondPass_Some [OF h, of f tf vt c1]
  obtain c2 d2 where
    two: "secondPass s f tf vt c1 = Some c2" "draws c2 = draws c1 @ [d2]"
      "d_serial d2 = length (draws c1)" "d_target d2 = Screen"
      "d_program d2 = Some RaycastShader" "d_cull d2 = Some GL_BACK"
      "d_uniforms d2 ''exitPositions'' = Some (UInt 1)"
      "d_uniforms d2 ''numSamples'' = Some (UInt (numSamples s))"
      "d_uniforms d2 ''sampleRangeStart'' = Some (UFloat (sampleRangeStart s))"
      "d_uniforms d2 ''sampleRangeEnd'' = Some (UFloat (sampleRangeEnd s))"
      "d_units d2 (1, Target2D) = Some (fbo_texture f)"
      "\<forall>t. t \<noteq> Screen \<longrightarrow> d_surfaces d2 t = surfaces c1 t"
      "next_name c2 = next_name c1" "tex_images c2 = tex_images c1"
    by blast
  have paint: "paintGL s = Some (s\<lparr>gl := c2\<rparr>)"
    by (simp add: paintGL_volume [OF assms(1) assms(3) ptr] one(1) two(1))
  have exit_map: "drawn (d_surfaces d2 (FboTexture (fbo_texture f))) = [d_serial d1]"
    using two(12) one(3,7) by (simp add: first_pass_context_fields)
  show ?thesis
    apply (rule exI [of _ "s\<lparr>gl := c2\<rparr>"], rule exI [of _ d1], rule exI [of _ d2])
    using paint exit_map one(2-6,8-10) two(2-11,13,14)
    by (simp add: first_pass_context_fields)
qed

lemma paintGL_returns: "paint_ok s \<Longrightarrow> \<exists>s'. paintGL s = Some s'"
proof (cases "volume s = None")
  case True
  then show ?thesis using paintGL_no_volume by blast
next
  case False
  assume "paint_ok s"
  with False obtain f where "rayVolumeExitPosMapFramebuffer s = Some f"
    by (auto simp: paint_ok_def)
  from paintGL_passes [OF False \<open>paint_ok s\<close> this] show ?thesis by blast
qed

lemma paintGL_context_kept:
  assumes "paintGL s = Some s'"
  shows "next_name (gl s') = next_name (gl s)" and "tex_images (gl s') = tex_images (gl s)"
proof -
  have ok: "paint_ok s" using assms paintGL_crashes by fastforce
  have "next_name (gl s') = next_name (gl s) \<and> tex_images (gl s') = tex_images (gl s)"
  proof (cases "volume s = None")
    case True
    from paintGL_no_volume [OF True] assms show ?thesis by auto
  next
    case False
    with ok obtain f where f: "rayVolumeExitPosMapFramebuffer s = Some f"
      by (auto simp: paint_ok_def)
    from paintGL_passes [OF False ok f] assms show ?thesis by auto
  qed
  then show "next_name (gl s') = next_name (gl s)" and "tex_images (gl s') = tex_images (gl s)"
    by simp_all
qed

lemma paintGL_keeps:
  assumes "paintGL s = Some s'"
  shows "width s' = width s" and "height s' = height s"
    and "backgroundColor s' = backgroundColor s" and "volume s' = volume s"
    and "volume3DTex s' = volume3DTex s"
    and "transferFunction1DTex s' = transferFunction1DTex s"
    and "rayVolumeExitPosMapFramebuffer s' = rayVolumeExitPosMapFramebuffer s"
    and "numSamples s' = numSamples s" and "tmpNumSamples s' = tmpNumSamples s"
    and "sampleRangeStart s' = sampleRangeStart s" and "sampleRangeEnd s' = sampleRangeEnd s"
    and "technique s' = technique s" and "viewOffset s' = viewOffset s"
    and "volumeRotAngleX s' = volumeRotAngleX s" and "volumeRotAngleY s' = volumeRotAngleY s"
    and "lastMousePos s' = lastMousePos s"
  using assms
  by (auto simp: paintGL_def Let_def split: prod.splits option.splits if_splits)

lemma paintGL_keeps_paint_ok:
  assumes "paintGL s = Some s'"
  shows "paint_ok s'"
proof -
  have "paint_ok s" using paintGL_crashes [of s] assms by (cases "paint_ok s") auto
  then show ?thesis by (simp add: paint_ok_def paintGL_keeps [OF assms])
qed

subsection \<open>The example states\<close>

lemma started_fields:
  "volume started = None"
  "width started = 800"
  "height started = 600"
  "backgroundColor started = (255, 255, 255)"
  "rayVolumeExitPosMapFramebuffer started =
     Some \<lparr>fbo_handle = 2, fbo_texture = 3, fbo_width = 800, fbo_height = 600,
           fbo_attachment = Depth, fbo_textureTarget = Target2D, fbo_internalFormat = GL_RGBA8\<rparr>"
  "transferFunction1DTex started =
     Some \<lparr>textureId = 1, tex_target = Target1D, tex_format = Some RGB8_UNorm,
           tex_wrap = Some Repeat, tex_min = Some Nearest, tex_mag = Some Nearest\<rparr>"
  "volume3DTex started = None"
  "numSamples started = 100"
  "tmpNumSamples started = 100"
  "sampleRangeStart started = 0"
  "sampleRangeEnd started = 1"
  "viewOffset started = \<lparr>vx = 0, vy = 0, vz = 1.8\<rparr>"
  "volumeRotAngleX started = 0"
  "volumeRotAngleY started = 0"
  "lastMousePos started = (0, 0)"
  "draws (gl started) = []"
  "next_name (gl started) = 4"
  "framebuffer (gl started) = Screen"
  "uniforms (gl started) = (\<lambda>_ _. None)"
  by (simp_all add: started_def constructed_def fresh_gl_def
      loadTransferFunction1DTex_def initRayVolumeExitPosMapFramebuffer_def
      new_QOpenGLTexture_def new_QOpenGLFramebufferObject_def texture_setData_def
      ramp_files_def Let_def)

lemma loaded_eq:
  "loaded = started
     \<lparr>volume := Some cube2,
      volume3DTex := Some \<lparr>textureId = 4, tex_target = Target3D, tex_format = Some R32F,
           tex_wrap = Some Repeat, tex_min = Some Linear, tex_mag = Some Linear\<rparr>,
      gl := (gl started)
        \<lparr>next_name := 5,
         texture_units := (texture_units (gl started))((active_texture (gl started), Target3D) \<mapsto> 4),
         tex_images := (tex_images (gl started))(4 := Image3D 2 2 2 (getVoxels cube2))\<rparr>\<rparr>"
  by (simp add: loaded_def dataLoaded_def loadVolume3DTex_def new_QOpenGLTexture_def
      texture_bind_def glBindTexture_def glTexImage3D_def started_fields cube2_def Let_def)

lemma loaded_fields:
  "volume loaded = Some cube2"
  "width loaded = 800"
  "height loaded = 600"
  "backgroundColor loaded = (255, 255, 255)"
  "rayVolumeExitPosMapFramebuffer loaded =
     Some \<lparr>fbo_handle = 2, fbo_texture = 3, fbo_width = 800, fbo_height = 600,
           fbo_attachment = Depth, fbo_textureTarget = Target2D, fbo_internalFormat = GL_RGBA8\<rparr>"
  "transferFunction1DTex loaded =
     Some \<lparr>textureId = 1, tex_target = Target1D, tex_format = Some RGB8_UNorm,
           tex_wrap = Some Repeat, tex_min = Some Nearest, tex_mag = Some Nearest\<rparr>"
  "volume3DTex loaded =
     Some \<lparr>textureId = 4, tex_target = Target3D, tex_format = Some R32F,
           tex_wrap = Some Repeat, tex_min = Some Linear, tex_mag = Some Linear\<rparr>"
  "numSamples loaded = 100"
  "tmpNumSamples loaded = 100"
  "sampleRangeStart loaded = 0"
  "sampleRangeEnd loaded = 1"
  "viewOffset loaded = \<lparr>vx = 0, vy = 0, vz = 1.8\<rparr>"
  "volumeRotAngleX loaded = 0"
  "volumeRotAngleY loaded = 0"
  "lastMousePos loaded = (0, 0)"
  "draws (gl loaded) = []"
  "next_name (gl loaded) = 5"
  "framebuffer (gl loaded) = Screen"
  "uniforms (gl loaded) = (\<lambda>_ _. None)"
  by (simp_all add: loaded_eq started_fields)

lemma initializeGL_constructed: "initializeGL ramp_files True constructed = Some started"
  by (simp add: initializeGL_def started_def)

lemma paint_ok_loaded: "paint_ok loaded"
  by (simp add: paint_ok_def loaded_fields)

lemma paint_ok_started: "paint_ok started"
  by (simp add: paint_ok_def started_fields)

lemma view_inv_loaded: "view_inv loaded"
  by (simp add: view_inv_def loaded_fields)

lemma initialised_loaded: "initialised loaded"
  by (simp add: initialised_def loaded_fields)

subsection \<open>The two passes of a frame\<close>

text \<open>
  C1. In every paint with a loaded volume, \<open>paintGL\<close> returns and makes exactly two draw
  calls, in this order: first the exit-position pass (the cube drawn with front faces
  culled, by the exit-position shader, into the colour texture of the offscreen
  framebuffer), then the raycasting pass (the cube drawn with back faces culled, by the
  raycast shader, into the default framebuffer). At the second draw call the sampler
  \<open>exitPositions\<close> is unit 1, unit 1 holds the texture of the offscreen framebuffer, and
  that texture holds, since its last clear, the first draw call of this same paint and
  nothing else.
\<close>

theorem exit_pass_precedes_raycast_pass:
  assumes "volume s \<noteq> None" and "paint_ok s" and "rayVolumeExitPosMapFramebuffer s = Some f"
  shows "\<exists>s' d1 d2. paintGL s = Some s' \<and> draws (gl s') = draws (gl s) @ [d1, d2] \<and>
     d_target d1 = FboTexture (fbo_texture f) \<and> d_cull d1 = Some GL_FRONT \<and>
     d_program d1 = Some RayVolumeExitPosMapShader \<and>
     d_target d2 = Screen \<and> d_cull d2 = Some GL_BACK \<and> d_program d2 = Some RaycastShader \<and>
     d_serial d1 < d_serial d2 \<and>
     d_uniforms d2 ''exitPositions'' = Some (UInt 1) \<and>
     d_units d2 (1, Target2D) = Some (fbo_texture f) \<and>
     drawn (d_surfaces d2 (FboTexture (fbo_texture f))) = [d_serial d1]"
proof -
  from paintGL_passes [OF assms] obtain s' d1 d2 where
    p: "paintGL s = Some s'" "draws (gl s') = draws (gl s) @ [d1, d2]"
      "d_target d1 = FboTexture (fbo_texture f)" "d_cull d1 = Some GL_FRONT"
      "d_program d1 = Some RayVolumeExitPosMapShader"
      "d_target d2 = Screen" "d_cull d2 = Some GL_BACK" "d_program d2 = Some RaycastShader"
      "d_uniforms d2 ''exitPositions'' = Some (UInt 1)"
      "d_units d2 (1, Target2D) = Some (fbo_texture f)"
      "drawn (d_surfaces d2 (FboTexture (fbo_texture f))) = [d_serial d1]"
    and ser: "d_serial d1 = length (draws (gl s))" "d_serial d2 = length (draws (gl s)) + 1"
    by blast
  from ser have lt: "d_serial d1 < d_serial d2" by simp
  from p lt show ?thesis by blast
qed

theorem exit_pass_precedes_raycast_pass_witness:
  "volume loaded \<noteq> None \<and> paint_ok loaded \<and>
   (\<exists>s' d1 d2. paintGL loaded = Some s' \<and> draws (gl s') = [d1, d2] \<and>
     d_target d1 = FboTexture 3 \<and> d_cull d1 = Some GL_FRONT \<and>
     d_program d1 = Some RayVolumeExitPosMapShader \<and>
     d_target d2 = Screen \<and> d_cull d2 = Some GL_BACK \<and> d_program d2 = Some RaycastShader \<and>
     d_serial d1 < d_serial d2 \<and>
     d_uniforms d2 ''exitPositions'' = Some (UInt 1) \<and>
     d_units d2 (1, Target2D) = Some 3 \<and>
     drawn (d_surfaces d2 (FboTexture 3)) = [d_serial d1])"
proof -
  have v: "volume loaded \<noteq> None" by (simp add: loaded_fields)
  from exit_pass_precedes_raycast_pass [OF v paint_ok_loaded loaded_fields(5)]
  show ?thesis using v paint_ok_loaded by (simp add: loaded_fields(16))
qed

subsection \<open>Painting without a volume\<close>

text \<open>The 8-bit value a channel \<open>r / 256\<close> is stored as: \<open>r\<close> itself up to 128, one
  less above.\<close>

lemma unorm8_of_256:
  assumes "0 \<le> r" and "r \<le> 255"
  shows "unorm8 (real_of_int r / 256) = (if r \<le> 128 then r else r - 1)"
  unfolding unorm8_def using assms by (auto simp: floor_eq_iff field_simps)

text \<open>
  C2. No volume is loaded and the configured background colour is white, (255, 255, 255).
  \<open>paintGL\<close> returns after the clear and makes no draw call, but the colour it clears
  the frame to is \<open>255 / 256\<close> in each channel, not 1: an 8-bit framebuffer stores it
  as 254, not as the configured 255. The division by 256 where the channel range is 255
  makes every channel above 128 come out one too low.
\<close>

theorem paint_without_volume_white_background:
  "volume constructed = None \<and> backgroundColor constructed = (255, 255, 255) \<and>
   (\<exists>s'. paintGL constructed = Some s' \<and> draws (gl s') = [] \<and>
      surfaces (gl s') Screen =
        \<lparr>cleared = Some (255 / 256, 255 / 256, 255 / 256, 1), drawn = []\<rparr>) \<and>
   unorm8 (255 / 256) = 254"
proof -
  have v: "volume constructed = None" and b: "backgroundColor constructed = (255, 255, 255)"
    and f: "framebuffer (gl constructed) = Screen" and d: "draws (gl constructed) = []"
    by (simp_all add: constructed_def fresh_gl_def)
  from paintGL_no_volume [OF v] have
    "\<exists>s'. paintGL constructed = Some s' \<and> draws (gl s') = [] \<and>
      surfaces (gl s') Screen =
        \<lparr>cleared = Some (255 / 256, 255 / 256, 255 / 256, 1), drawn = []\<rparr>"
    by (auto simp: b f d)
  moreover have "unorm8 (255 / 256) = 254"
    using unorm8_of_256 [of 255] by simp
  ultimately show ?thesis using v b by simp
qed

subsection \<open>Resizing\<close>

lemma resizeGL_fields:
  "rayVolumeExitPosMapFramebuffer (resizeGL w h s) =
     Some \<lparr>fbo_handle = next_name (gl s), fbo_texture = next_name (gl s) + 1,
           fbo_width = w, fbo_height = h, fbo_attachment = Depth,
           fbo_textureTarget = Target2D, fbo_internalFormat = GL_RGBA8\<rparr>"
  "volume (resizeGL w h s) = volume s"
  "height (resizeGL w h s) = height s"
  "transferFunction1DTex (resizeGL w h s) = transferFunction1DTex s"
  "volume3DTex (resizeGL w h s) = volume3DTex s"
  "draws (gl (resizeGL w h s)) = draws (gl s)"
  "surfaces (gl (resizeGL w h s)) (FboTexture (next_name (gl s) + 1)) = empty_surface"
  by (simp_all add: resizeGL_def new_QOpenGLFramebufferObject_def)

text \<open>
  C3. For every size \<open>(w, h)\<close> with \<open>w > 0\<close> and \<open>h > 0\<close>, right after \<open>resizeGL w h\<close>
  the offscreen framebuffer of the widget is a newly created one of exactly \<open>w\<close> by \<open>h\<close>
  pixels, holding nothing yet; and the next paint (with a volume loaded) draws its exit
  positions into this new framebuffer's texture and its raycasting pass reads that
  texture, as written by that paint.
\<close>

theorem resize_replaces_exit_position_map:
  assumes "0 < w" and "0 < h"
  shows "\<exists>f. rayVolumeExitPosMapFramebuffer (resizeGL w h s) = Some f \<and>
           fbo_width f = w \<and> fbo_height f = h \<and>
           fbo_handle f = next_name (gl s) \<and> fbo_texture f = next_name (gl s) + 1 \<and>
           surfaces (gl (resizeGL w h s)) (FboTexture (fbo_texture f)) = empty_surface \<and>
           (volume s \<noteq> None \<and> paint_ok s \<longrightarrow>
            (\<exists>s' d1 d2. paintGL (resizeGL w h s) = Some s' \<and>
               draws (gl s') = draws (gl s) @ [d1, d2] \<and>
               d_target d1 = FboTexture (fbo_texture f) \<and>
               d_target d2 = Screen \<and>
               d_units d2 (1, Target2D) = Some (fbo_texture f) \<and>
               drawn (d_surfaces d2 (FboTexture (fbo_texture f))) = [d_serial d1]))"
proof -
  let ?f = "\<lparr>fbo_handle = next_name (gl s), fbo_texture = next_name (gl s) + 1,
           fbo_width = w, fbo_height = h, fbo_attachment = Depth,
           fbo_textureTarget = Target2D, fbo_internalFormat = GL_RGBA8\<rparr>"
  have next_paint: "\<exists>s' d1 d2. paintGL (resizeGL w h s) = Some s' \<and>
               draws (gl s') = draws (gl s) @ [d1, d2] \<and>
               d_target d1 = FboTexture (fbo_texture ?f) \<and>
               d_target d2 = Screen \<and>
               d_units d2 (1, Target2D) = Some (fbo_texture ?f) \<and>
               drawn (d_surfaces d2 (FboTexture (fbo_texture ?f))) = [d_serial d1]"
    if "volume s \<noteq> None" and "paint_ok s"
  proof -
    from that have v: "volume (resizeGL w h s) \<noteq> None" and ok: "paint_ok (resizeGL w h s)"
      by (auto simp: paint_ok_def resizeGL_fields)
    from paintGL_passes [OF v ok resizeGL_fields(1)] obtain s' d1 d2 where
      "paintGL (resizeGL w h s) = Some s'"
      "draws (gl s') = draws (gl (resizeGL w h s)) @ [d1, d2]"
      "d_target d1 = FboTexture (fbo_texture ?f)" "d_target d2 = Screen"
      "d_units d2 (1, Target2D) = Some (fbo_texture ?f)"
      "drawn (d_surfaces d2 (FboTexture (fbo_texture ?f))) = [d_serial d1]"
      by blast
    then show ?thesis unfolding resizeGL_fields(6) by blast
  qed
  have fresh: "surfaces (gl (resizeGL w h s)) (FboTexture (fbo_texture ?f)) = empty_surface"
    using resizeGL_fields(7) [of w h s] by simp
  show ?thesis
    apply (rule exI [of _ ?f])
    using next_paint fresh by (simp add: resizeGL_fields(1))
qed

theorem resize_replaces_exit_position_map_witness:
  "(0::int) < 1024 \<and> (0::int) < 768 \<and>
   (\<exists>f. rayVolumeExitPosMapFramebuffer (resizeGL 1024 768 loaded) = Some f \<and>
           fbo_width f = 1024 \<and> fbo_height f = 768 \<and> fbo_handle f = 5 \<and> fbo_texture f = 6 \<and>
           surfaces (gl (resizeGL 1024 768 loaded)) (FboTexture 6) = empty_surface \<and>
            (\<exists>s' d1 d2. paintGL (resizeGL 1024 768 loaded) = Some s' \<and>
               draws (gl s') = [d1, d2] \<and>
               d_target d1 = FboTexture 6 \<and>
               d_target d2 = Screen \<and>
               d_units d2 (1, Target2D) = Some 6 \<and>
               drawn (d_surfaces d2 (FboTexture 6)) = [d_serial d1]))"
proof -
  have w: "(0::int) < 1024" and h: "(0::int) < 768" by simp_all
  from resize_replaces_exit_position_map [OF w h, of loaded]
  show ?thesis by (auto simp: loaded_fields paint_ok_loaded)
qed

subsection \<open>The parameter setters\<close>

lemma setNumSamples_effect:
  assumes "paint_ok s"
  shows "\<exists>s'. setNumSamples n s = Some s' \<and> numSamples s' = n \<and>
            (volume s \<noteq> None \<longrightarrow>
               uniform_history ''numSamples'' s' =
                 uniform_history ''numSamples'' s @
                   [uniforms (gl s) RayVolumeExitPosMapShader ''numSamples'', Some (UInt n)])"
proof -
  let ?s = "s\<lparr>numSamples := n\<rparr>"
  have ok: "paint_ok ?s" using assms by (simp add: paint_ok_def)
  show ?thesis
  proof (cases "volume s = None")
    case True
    from paintGL_returns [OF ok] obtain s' where p: "paintGL ?s = Some s'" by blast
    from paintGL_keeps(8) [OF p] have "numSamples s' = n" by simp
    with p True show ?thesis by (simp add: setNumSamples_def repaint_def)
  next
    case False
    with assms obtain f where f: "rayVolumeExitPosMapFramebuffer ?s = Some f"
      by (auto simp: paint_ok_def)
    from False have v: "volume ?s \<noteq> None" by simp
    from paintGL_passes [OF v ok f] obtain s' d1 d2 where
      p: "paintGL ?s = Some s'" "draws (gl s') = draws (gl ?s) @ [d1, d2]"
        "d_uniforms d2 ''numSamples'' = Some (UInt (numSamples ?s))"
        "d_uniforms d1 ''numSamples'' = uniforms (gl ?s) RayVolumeExitPosMapShader ''numSamples''"
      by blast
    from paintGL_keeps(8) [OF p(1)] have "numSamples s' = n" by simp
    with p show ?thesis
      by (simp add: setNumSamples_def repaint_def uniform_history_def)
  qed
qed

lemma setSampleRangeStart_effect:
  assumes "paint_ok s"
  shows "\<exists>s'. setSampleRangeStart x s = Some s' \<and> sampleRangeStart s' = x \<and>
            sampleRangeEnd s' = sampleRangeEnd s"
proof -
  let ?s = "s\<lparr>sampleRangeStart := x\<rparr>"
  have ok: "paint_ok ?s" using assms by (simp add: paint_ok_def)
  from paintGL_returns [OF ok] obtain s' where p: "paintGL ?s = Some s'" by blast
  from paintGL_keeps(10,11) [OF p] p show ?thesis
    by (simp add: setSampleRangeStart_def repaint_def)
qed

lemma setSampleRangeEnd_effect:
  assumes "paint_ok s"
  shows "\<exists>s'. setSampleRangeEnd y s = Some s' \<and> sampleRangeEnd s' = y \<and>
            sampleRangeStart s' = sampleRangeStart s"
proof -
  let ?s = "s\<lparr>sampleRangeEnd := y\<rparr>"
  have ok: "paint_ok ?s" using assms by (simp add: paint_ok_def)
  from paintGL_returns [OF ok] obtain s' where p: "paintGL ?s = Some s'" by blast
  from paintGL_keeps(10,11) [OF p] p show ?thesis
    by (simp add: setSampleRangeEnd_def repaint_def)
qed

text \<open>
  C5, as the code has it. No setter clamps or rejects. On a widget that can paint,
  \<open>setNumSamples n\<close> stores \<open>n\<close> for every integer \<open>n\<close>, zero and negative ones
  included, and the repaint hands that same \<open>n\<close> to the raycast shader as its uniform
  \<open>numSamples\<close>; \<open>setSampleRangeStart\<close> and \<open>setSampleRangeEnd\<close> store the bound they
  are given and leave the other bound alone, whatever the order of the two.
\<close>

theorem setters_store_unchecked:
  assumes "paint_ok s"
  shows "(\<exists>s'. setNumSamples n s = Some s' \<and> numSamples s' = n \<and>
            (volume s \<noteq> None \<longrightarrow>
               uniform_history ''numSamples'' s' =
                 uniform_history ''numSamples'' s @
                   [uniforms (gl s) RayVolumeExitPosMapShader ''numSamples'', Some (UInt n)])) \<and>
         (\<exists>s'. setSampleRangeStart x s = Some s' \<and> sampleRangeStart s' = x \<and>
            sampleRangeEnd s' = sampleRangeEnd s) \<and>
         (\<exists>s'. setSampleRangeEnd y s = Some s' \<and> sampleRangeEnd s' = y \<and>
            sampleRangeStart s' = sampleRangeStart s)"
  using setNumSamples_effect [OF assms] setSampleRangeStart_effect [OF assms]
    setSampleRangeEnd_effect [OF assms]
  by (intro conjI)

theorem setters_store_unchecked_witness:
  "paint_ok loaded \<and>
   (\<exists>s'. setNumSamples (- 3) loaded = Some s' \<and> numSamples s' = - 3 \<and>
        uniform_history ''numSamples'' s' = [None, Some (UInt (- 3))]) \<and>
   (\<exists>s'. setSampleRangeStart 2 loaded = Some s' \<and> sampleRangeStart s' = 2 \<and>
        sampleRangeEnd s' = 1) \<and>
   (\<exists>s'. setSampleRangeEnd (- 1) loaded = Some s' \<and> sampleRangeEnd s' = - 1 \<and>
        sampleRangeStart s' = 0)"
  using setters_store_unchecked [OF paint_ok_loaded, of "- 3" 2 "- 1"]
  by (simp add: paint_ok_loaded loaded_fields uniform_history_def)

text \<open>C5 as stated fails: on a widget with 100 samples, \<open>setNumSamples 0\<close> stores 0
  (neither a clamped value nor the old one) and renders with the uniform 0, where
  \<open>setNumSamples 1\<close> renders with 1; \<open>setSampleRangeStart 2\<close> with the end at 1 stores
  a start above the end.\<close>

theorem zero_samples_stored_as_zero:
  "numSamples loaded = 100 \<and>
   map_option numSamples (setNumSamples 0 loaded) = Some 0 \<and>
   map_option (uniform_history ''numSamples'') (setNumSamples 0 loaded) =
     Some [None, Some (UInt 0)] \<and>
   map_option (uniform_history ''numSamples'') (setNumSamples 1 loaded) =
     Some [None, Some (UInt 1)] \<and>
   sampleRangeEnd loaded = 1 \<and>
   map_option sampleRangeStart (setSampleRangeStart 2 loaded) = Some 2 \<and>
   map_option sampleRangeEnd (setSampleRangeStart 2 loaded) = Some 1"
proof -
  from setNumSamples_effect [OF paint_ok_loaded, of 0] obtain s0 where
    zero: "setNumSamples 0 loaded = Some s0" "numSamples s0 = 0"
      "uniform_history ''numSamples'' s0 = [None, Some (UInt 0)]"
    by (auto simp: loaded_fields uniform_history_def)
  from setNumSamples_effect [OF paint_ok_loaded, of 1] obtain s1 where
    one: "setNumSamples 1 loaded = Some s1"
      "uniform_history ''numSamples'' s1 = [None, Some (UInt 1)]"
    by (auto simp: loaded_fields uniform_history_def)
  from setSampleRangeStart_effect [OF paint_ok_loaded, of 2] obtain s2 where
    two: "setSampleRangeStart 2 loaded = Some s2" "sampleRangeStart s2 = 2"
      "sampleRangeEnd s2 = 1"
    by (auto simp: loaded_fields)
  from zero one two show ?thesis by (simp add: loaded_fields)
qed

subsection \<open>Pointer events\<close>

lemma zoom_effect:
  "zoom dy s = s\<lparr>viewOffset := viewOffset (zoom dy s)\<rparr>"
  "vx (viewOffset (zoom dy s)) = vx (viewOffset s)"
  "vy (viewOffset (zoom dy s)) = vy (viewOffset s)"
  "vz (viewOffset (zoom dy s)) =
     max 0.8 (min 3 (vz (viewOffset s) + real_of_int (wrap32 (- dy)) / 40))"
  by (simp_all add: zoom_def Let_def)

lemma pan_effect:
  "pan dx dy s = s\<lparr>viewOffset := viewOffset (pan dx dy s)\<rparr>"
  "vx (viewOffset (pan dx dy s)) = max (- 1) (min 1 (vx (viewOffset s) + real_of_int dx / 60))"
  "vy (viewOffset (pan dx dy s)) =
     max (- 1) (min 1 (vy (viewOffset s) + real_of_int (wrap32 (- dy)) / 60))"
  "vz (viewOffset (pan dx dy s)) = vz (viewOffset s)"
  by (simp_all add: pan_def Let_def)

lemma rotate_view_effect:
  "rotate_view dx dy s =
     s\<lparr>volumeRotAngleX := volumeRotAngleX (rotate_view dx dy s),
       volumeRotAngleY := wrap32 (volumeRotAngleY s + dx)\<rparr>"
  "- 90 \<le> volumeRotAngleX (rotate_view dx dy s)"
  "volumeRotAngleX (rotate_view dx dy s) \<le> 90"
  "dy = 0 \<Longrightarrow> volumeRotAngleX s = 0 \<Longrightarrow> volumeRotAngleX (rotate_view dx dy s) = 0"
  by (simp_all add: rotate_view_def Let_def)

text \<open>What one pointer move does to the fields of the widget.\<close>

lemma mouseMoveEvent_effect:
  assumes "paint_ok s"
  shows "\<exists>s'. mouseMoveEvent ev s = Some s' \<and> paint_ok s' \<and> numSamples s' = 5 \<and>
     tmpNumSamples s' = tmpNumSamples s \<and> lastMousePos s' = (ev_x ev, ev_y ev) \<and>
     (viewOffset s', volumeRotAngleX s', volumeRotAngleY s') =
       (let dx = wrap32 (ev_x ev - fst (lastMousePos s));
            dy = wrap32 (ev_y ev - snd (lastMousePos s)) in
        if ev_buttons ev AND LeftButton \<noteq> 0 then
          if ev_modifiers ev AND AltModifier \<noteq> 0
          then (viewOffset (zoom dy s), volumeRotAngleX s, volumeRotAngleY s)
          else if ev_modifiers ev AND ControlModifier \<noteq> 0
          then (viewOffset (pan dx dy s), volumeRotAngleX s, volumeRotAngleY s)
          else (viewOffset s, volumeRotAngleX (rotate_view dx dy s),
                wrap32 (volumeRotAngleY s + dx))
        else (viewOffset s, volumeRotAngleX s, volumeRotAngleY s))"
proof -
  define dx where "dx = wrap32 (ev_x ev - fst (lastMousePos s))"
  define dy where "dy = wrap32 (ev_y ev - snd (lastMousePos s))"
  define s1 where "s1 = s\<lparr>numSamples := 5\<rparr>"
  define s2 where "s2 =
    (if ev_buttons ev AND LeftButton \<noteq> 0 then
       (if ev_modifiers ev AND AltModifier \<noteq> 0 then zoom dy s1
        else if ev_modifiers ev AND ControlModifier \<noteq> 0 then pan dx dy s1
        else rotate_view dx dy s1)
     else s1)"
  define s3 where "s3 = s2\<lparr>lastMousePos := (ev_x ev, ev_y ev)\<rparr>"
  have move: "mouseMoveEvent ev s = paintGL s3"
    by (simp add: mouseMoveEvent_def repaint_def Let_def s3_def s2_def s1_def dx_def dy_def)
  have kept: "volume s2 = volume s" "height s2 = height s"
    "rayVolumeExitPosMapFramebuffer s2 = rayVolumeExitPosMapFramebuffer s"
    "transferFunction1DTex s2 = transferFunction1DTex s" "volume3DTex s2 = volume3DTex s"
    "numSamples s2 = 5" "tmpNumSamples s2 = tmpNumSamples s"
    unfolding s2_def s1_def
    by (simp_all add: zoom_def pan_def rotate_view_def Let_def)
  have view: "(viewOffset s2, volumeRotAngleX s2, volumeRotAngleY s2) =
       (if ev_buttons ev AND LeftButton \<noteq> 0 then
          if ev_modifiers ev AND AltModifier \<noteq> 0
          then (viewOffset (zoom dy s), volumeRotAngleX s, volumeRotAngleY s)
          else if ev_modifiers ev AND ControlModifier \<noteq> 0
          then (viewOffset (pan dx dy s), volumeRotAngleX s, volumeRotAngleY s)
          else (viewOffset s, volumeRotAngleX (rotate_view dx dy s),
                wrap32 (volumeRotAngleY s + dx))
        else (viewOffset s, volumeRotAngleX s, volumeRotAngleY s))"
    unfolding s2_def s1_def
    by (simp add: zoom_def pan_def rotate_view_def Let_def)
  have ok: "paint_ok s3" using assms by (simp add: paint_ok_def s3_def kept)
  from paintGL_returns [OF ok] obtain s' where p: "paintGL s3 = Some s'" by blast
  have "paint_ok s'" by (rule paintGL_keeps_paint_ok [OF p])
  moreover have "numSamples s' = 5" "tmpNumSamples s' = tmpNumSamples s"
    "lastMousePos s' = (ev_x ev, ev_y ev)"
    by (simp_all add: paintGL_keeps [OF p] s3_def kept)
  moreover have "(viewOffset s', volumeRotAngleX s', volumeRotAngleY s') =
      (viewOffset s2, volumeRotAngleX s2, volumeRotAngleY s2)"
    by (simp add: paintGL_keeps [OF p] s3_def)
  ultimately show ?thesis
    unfolding move Let_def dx_def [symmetric] dy_def [symmetric] using p view by simp
qed

lemma mouseReleaseEvent_effect:
  assumes "paint_ok s"
  shows "\<exists>s'. mouseReleaseEvent s = Some s' \<and> paint_ok s' \<and>
     numSamples s' = tmpNumSamples s \<and> tmpNumSamples s' = tmpNumSamples s \<and>
     viewOffset s' = viewOffset s \<and> volumeRotAngleX s' = volumeRotAngleX s \<and>
     volumeRotAngleY s' = volumeRotAngleY s"
proof -
  let ?s = "s\<lparr>numSamples := tmpNumSamples s\<rparr>"
  have ok: "paint_ok ?s" using assms by (simp add: paint_ok_def)
  from paintGL_returns [OF ok] obtain s' where p: "paintGL ?s = Some s'" by blast
  from paintGL_keeps_paint_ok [OF p] paintGL_keeps [OF p] p show ?thesis
    by (simp add: mouseReleaseEvent_def repaint_def)
qed

lemma mousePressEvent_effect:
  "tmpNumSamples (mousePressEvent e s) =
     (if 5 < numSamples s then numSamples s else tmpNumSamples s)"
  "numSamples (mousePressEvent e s) = numSamples s"
  "lastMousePos (mousePressEvent e s) = (ev_x e, ev_y e)"
  "viewOffset (mousePressEvent e s) = viewOffset s"
  "volumeRotAngleX (mousePressEvent e s) = volumeRotAngleX s"
  "volumeRotAngleY (mousePressEvent e s) = volumeRotAngleY s"
  "paint_ok (mousePressEvent e s) = paint_ok s"
  by (simp_all add: mousePressEvent_def Let_def paint_ok_def)

text \<open>
  C9. A pointer move with no button pressed, on a widget that can paint, returns; after
  it the sample count is 5 and the anchor is the position of the event, while both
  rotation angles and the three components of the view offset are what they were.
\<close>

theorem hover_lowers_samples_only:
  assumes "paint_ok s" and "ev_buttons ev = 0"
  shows "\<exists>s'. mouseMoveEvent ev s = Some s' \<and> numSamples s' = 5 \<and>
     lastMousePos s' = (ev_x ev, ev_y ev) \<and>
     volumeRotAngleX s' = volumeRotAngleX s \<and> volumeRotAngleY s' = volumeRotAngleY s \<and>
     vx (viewOffset s') = vx (viewOffset s) \<and> vy (viewOffset s') = vy (viewOffset s) \<and>
     vz (viewOffset s') = vz (viewOffset s)"
  using mouseMoveEvent_effect [OF assms(1), of ev] assms(2) by (auto simp: Let_def)

theorem hover_lowers_samples_only_witness:
  "paint_ok loaded \<and> ev_buttons \<lparr>ev_x = 40, ev_y = 30, ev_buttons = 0, ev_modifiers = 0\<rparr> = 0 \<and>
   (\<exists>s'. mouseMoveEvent \<lparr>ev_x = 40, ev_y = 30, ev_buttons = 0, ev_modifiers = 0\<rparr> loaded = Some s' \<and>
      numSamples s' = 5 \<and> numSamples loaded = 100 \<and> lastMousePos s' = (40, 30) \<and>
      volumeRotAngleX s' = 0 \<and> volumeRotAngleY s' = 0 \<and>
      vx (viewOffset s') = 0 \<and> vy (viewOffset s') = 0 \<and> vz (viewOffset s') = 1.8)"
  using hover_lowers_samples_only [OF paint_ok_loaded,
      of "\<lparr>ev_x = 40, ev_y = 30, ev_buttons = 0, ev_modifiers = 0\<rparr>"]
  by (simp add: paint_ok_loaded loaded_fields)

text \<open>
  C8. A pointer move with the left button held and the zoom modifier (Alt) set, whose
  vertical distance from the anchor is +80, on a widget that can paint: the z component
  of the view offset becomes the old one less 80/40 = 2, clamped into [0.8, 3], and x
  and y stay. From z = 1.8 the result is 0.8.
\<close>

theorem zoom_drag_by_80:
  assumes "paint_ok s" and "ev_buttons ev AND LeftButton \<noteq> 0"
    and "ev_modifiers ev AND AltModifier \<noteq> 0" and "ev_y ev - snd (lastMousePos s) = 80"
  shows "\<exists>s'. mouseMoveEvent ev s = Some s' \<and>
     vz (viewOffset s') = max 0.8 (min 3 (vz (viewOffset s) - 2)) \<and>
     0.8 \<le> vz (viewOffset s') \<and> vz (viewOffset s') \<le> 3 \<and>
     vx (viewOffset s') = vx (viewOffset s) \<and> vy (viewOffset s') = vy (viewOffset s) \<and>
     (vz (viewOffset s) = 1.8 \<longrightarrow> vz (viewOffset s') = 0.8)"
proof -
  from mouseMoveEvent_effect [OF assms(1), of ev] assms(2-4) obtain s' where
    m: "mouseMoveEvent ev s = Some s'" and v: "viewOffset s' = viewOffset (zoom 80 s)"
    by (auto simp: Let_def wrap32_def)
  have z: "vz (viewOffset s') = max 0.8 (min 3 (vz (viewOffset s) - 2))"
    by (simp add: v zoom_effect(4) wrap32_def)
  have xy: "vx (viewOffset s') = vx (viewOffset s)" "vy (viewOffset s') = vy (viewOffset s)"
    by (simp_all add: v zoom_effect(2,3))
  have lo: "0.8 \<le> vz (viewOffset s')" and hi: "vz (viewOffset s') \<le> 3"
    unfolding z by (simp_all add: max_def min_def)
  have init: "vz (viewOffset s) = 1.8 \<longrightarrow> vz (viewOffset s') = 0.8"
    unfolding z by (simp add: max_def min_def)
  from m z xy lo hi init show ?thesis by blast
qed

theorem zoom_drag_by_80_witness:
  "paint_ok loaded \<and>
   ev_buttons \<lparr>ev_x = 0, ev_y = 80, ev_buttons = 1, ev_modifiers = 0x08000000\<rparr> AND LeftButton \<noteq> 0 \<and>
   ev_modifiers \<lparr>ev_x = 0, ev_y = 80, ev_buttons = 1, ev_modifiers = 0x08000000\<rparr> AND AltModifier \<noteq> 0 \<and>
   ev_y \<lparr>ev_x = 0, ev_y = 80, ev_buttons = 1, ev_modifiers = 0x08000000\<rparr> - snd (lastMousePos loaded) = 80 \<and>
   vz (viewOffset loaded) = 1.8 \<and>
   (\<exists>s'. mouseMoveEvent \<lparr>ev_x = 0, ev_y = 80, ev_buttons = 1, ev_modifiers = 0x08000000\<rparr> loaded = Some s' \<and>
      vz (viewOffset s') = 0.8 \<and> vx (viewOffset s') = 0 \<and> vy (viewOffset s') = 0)"
proof -
  let ?ev = "\<lparr>ev_x = 0, ev_y = 80, ev_buttons = 1, ev_modifiers = 0x08000000\<rparr>"
  have b: "ev_buttons ?ev AND LeftButton \<noteq> 0" by (simp add: LeftButton_def)
  have m: "ev_modifiers ?ev AND AltModifier \<noteq> 0" by (simp add: AltModifier_def)
  have d: "ev_y ?ev - snd (lastMousePos loaded) = 80" by (simp add: loaded_fields)
  from zoom_drag_by_80 [OF paint_ok_loaded b m d] b m d paint_ok_loaded
  show ?thesis by (auto simp: loaded_fields)
qed

lemma drag_effect:
  assumes "paint_ok s" and "ms \<noteq> []"
  shows "\<exists>t. drag ms s = Some t \<and> paint_ok t \<and> numSamples t = 5 \<and>
           tmpNumSamples t = tmpNumSamples s"
  using assms
proof (induction ms arbitrary: s)
  case Nil
  then show ?case by simp
next
  case (Cons e es)
  from mouseMoveEvent_effect [OF Cons.prems(1), of e] obtain s1 where
    one: "mouseMoveEvent e s = Some s1" "paint_ok s1" "numSamples s1 = 5"
      "tmpNumSamples s1 = tmpNumSamples s"
    by blast
  show ?case
  proof (cases "es = []")
    case True
    with one show ?thesis by simp
  next
    case False
    from Cons.IH [OF one(2) False] one(1,4) show ?thesis by auto
  qed
qed

lemma drag_returns:
  assumes "paint_ok s"
  shows "\<exists>t. drag ms s = Some t \<and> paint_ok t \<and> tmpNumSamples t = tmpNumSamples s"
proof (cases "ms = []")
  case True
  with assms show ?thesis by simp
next
  case False
  from drag_effect [OF assms False] show ?thesis by blast
qed

text \<open>
  C6. A press, any number of moves and a release, on a widget that can paint, all
  return. The press remembers the sample count if it is above 5 and otherwise keeps
  what was remembered before, and leaves the sample count itself alone; after each move
  of the drag the sample count is 5; after the release the sample count is the
  remembered value, so it is again \<open>n\<close> when the drag began with a sample count
  \<open>n > 5\<close>.
\<close>

theorem press_drag_release_restores_samples:
  assumes "paint_ok s"
  shows "\<exists>s2 s3. drag ms (mousePressEvent p s) = Some s2 \<and> mouseReleaseEvent s2 = Some s3 \<and>
     tmpNumSamples (mousePressEvent p s) =
       (if 5 < numSamples s then numSamples s else tmpNumSamples s) \<and>
     numSamples (mousePressEvent p s) = numSamples s \<and>
     (\<forall>k. 0 < k \<and> k \<le> length ms \<longrightarrow>
        (\<exists>t. drag (take k ms) (mousePressEvent p s) = Some t \<and> numSamples t = 5)) \<and>
     numSamples s3 = tmpNumSamples (mousePressEvent p s) \<and>
     (5 < numSamples s \<longrightarrow> numSamples s3 = numSamples s)"
proof -
  let ?s1 = "mousePressEvent p s"
  have ok1: "paint_ok ?s1" using assms by (simp add: mousePressEvent_effect)
  from drag_returns [OF ok1, of ms] obtain s2 where
    two: "drag ms ?s1 = Some s2" "paint_ok s2" "tmpNumSamples s2 = tmpNumSamples ?s1"
    by blast
  from mouseReleaseEvent_effect [OF two(2)] obtain s3 where
    three: "mouseReleaseEvent s2 = Some s3" "numSamples s3 = tmpNumSamples s2"
    by blast
  have during: "\<exists>t. drag (take k ms) ?s1 = Some t \<and> numSamples t = 5"
    if "0 < k \<and> k \<le> length ms" for k
  proof -
    from that have "take k ms \<noteq> []" by auto
    from drag_effect [OF ok1 this] show ?thesis by blast
  qed
  have restored: "numSamples s3 = tmpNumSamples ?s1" using three(2) two(3) by simp
  then have again: "5 < numSamples s \<longrightarrow> numSamples s3 = numSamples s"
    by (simp add: mousePressEvent_effect)
  from two(1) three(1) during restored again show ?thesis
    by (simp add: mousePressEvent_effect(1,2))
qed

theorem press_drag_release_restores_samples_witness:
  "paint_ok loaded \<and> numSamples loaded = 100 \<and>
   (\<exists>s2 s3.
      drag [\<lparr>ev_x = 13, ev_y = 10, ev_buttons = 1, ev_modifiers = 0\<rparr>,
            \<lparr>ev_x = 20, ev_y = 12, ev_buttons = 1, ev_modifiers = 0\<rparr>]
        (mousePressEvent \<lparr>ev_x = 10, ev_y = 10, ev_buttons = 1, ev_modifiers = 0\<rparr> loaded) = Some s2 \<and>
      mouseReleaseEvent s2 = Some s3 \<and>
      tmpNumSamples (mousePressEvent \<lparr>ev_x = 10, ev_y = 10, ev_buttons = 1, ev_modifiers = 0\<rparr> loaded) = 100 \<and>
      numSamples s2 = 5 \<and> numSamples s3 = 100)"
proof -
  let ?p = "\<lparr>ev_x = 10, ev_y = 10, ev_buttons = 1, ev_modifiers = 0\<rparr>"
  let ?ms = "[\<lparr>ev_x = 13, ev_y = 10, ev_buttons = 1, ev_modifiers = 0\<rparr>,
            \<lparr>ev_x = 20, ev_y = 12, ev_buttons = 1, ev_modifiers = 0\<rparr>]"
  from press_drag_release_restores_samples [OF paint_ok_loaded, of ?ms ?p]
  obtain s2 s3 where
    r: "drag ?ms (mousePressEvent ?p loaded) = Some s2" "mouseReleaseEvent s2 = Some s3"
      "tmpNumSamples (mousePressEvent ?p loaded) =
         (if 5 < numSamples loaded then numSamples loaded else tmpNumSamples loaded)"
      "\<forall>k. 0 < k \<and> k \<le> length ?ms \<longrightarrow>
        (\<exists>t. drag (take k ?ms) (mousePressEvent ?p loaded) = Some t \<and> numSamples t = 5)"
      "5 < numSamples loaded \<longrightarrow> numSamples s3 = numSamples loaded"
    by blast
  from r(4) [rule_format, of 2] r(1) have "numSamples s2 = 5" by simp
  with r(1,2,3,5) paint_ok_loaded show ?thesis by (simp add: loaded_fields)
qed

subsection \<open>The bounds on the view state\<close>

lemma view_inv_zoom: "view_inv s \<Longrightarrow> view_inv (zoom dy s)"
  by (simp add: view_inv_def zoom_def Let_def)

lemma view_inv_pan: "view_inv s \<Longrightarrow> view_inv (pan dx dy s)"
  by (simp add: view_inv_def pan_def Let_def)

lemma view_inv_rotate_view: "view_inv s \<Longrightarrow> view_inv (rotate_view dx dy s)"
  by (simp add: view_inv_def rotate_view_def Let_def)

lemma view_inv_cong:
  assumes "viewOffset s' = viewOffset t" and "volumeRotAngleX s' = volumeRotAngleX t"
  shows "view_inv s' = view_inv t"
  by (simp add: view_inv_def assms)

lemma mouseMoveEvent_invariant:
  assumes "view_inv s" and "paint_ok s"
  shows "\<exists>s'. mouseMoveEvent ev s = Some s' \<and> view_inv s' \<and> paint_ok s'"
proof -
  define dx where "dx = wrap32 (ev_x ev - fst (lastMousePos s))"
  define dy where "dy = wrap32 (ev_y ev - snd (lastMousePos s))"
  from mouseMoveEvent_effect [OF assms(2), of ev] obtain s' where
    m: "mouseMoveEvent ev s = Some s'" "paint_ok s'" and
    v: "(viewOffset s', volumeRotAngleX s', volumeRotAngleY s') =
        (if ev_buttons ev AND LeftButton \<noteq> 0 then
          if ev_modifiers ev AND AltModifier \<noteq> 0
          then (viewOffset (zoom dy s), volumeRotAngleX s, volumeRotAngleY s)
          else if ev_modifiers ev AND ControlModifier \<noteq> 0
          then (viewOffset (pan dx dy s), volumeRotAngleX s, volumeRotAngleY s)
          else (viewOffset s, volumeRotAngleX (rotate_view dx dy s),
                wrap32 (volumeRotAngleY s + dx))
        else (viewOffset s, volumeRotAngleX s, volumeRotAngleY s))"
    unfolding Let_def dx_def dy_def by blast
  consider (hover) "ev_buttons ev AND LeftButton = 0"
    | (zoom) "ev_buttons ev AND LeftButton \<noteq> 0" "ev_modifiers ev AND AltModifier \<noteq> 0"
    | (pan) "ev_buttons ev AND LeftButton \<noteq> 0" "ev_modifiers ev AND AltModifier = 0"
        "ev_modifiers ev AND ControlModifier \<noteq> 0"
    | (rotate) "ev_buttons ev AND LeftButton \<noteq> 0" "ev_modifiers ev AND AltModifier = 0"
        "ev_modifiers ev AND ControlModifier = 0"
    by blast
  then have "view_inv s'"
  proof cases
    case hover
    with v have "viewOffset s' = viewOffset s" "volumeRotAngleX s' = volumeRotAngleX s"
      by simp_all
    from view_inv_cong [OF this] assms(1) show ?thesis by simp
  next
    case zoom
    with v have "viewOffset s' = viewOffset (zoom dy s)"
      "volumeRotAngleX s' = volumeRotAngleX (zoom dy s)"
      by (simp_all add: zoom_def Let_def)
    from view_inv_cong [OF this] view_inv_zoom [OF assms(1)] show ?thesis by simp
  next
    case pan
    with v have "viewOffset s' = viewOffset (pan dx dy s)"
      "volumeRotAngleX s' = volumeRotAngleX (pan dx dy s)"
      by (simp_all add: pan_def Let_def)
    from view_inv_cong [OF this] view_inv_pan [OF assms(1)] show ?thesis by simp
  next
    case rotate
    with v have "viewOffset s' = viewOffset (rotate_view dx dy s)"
      "volumeRotAngleX s' = volumeRotAngleX (rotate_view dx dy s)"
      by (simp_all add: rotate_view_def Let_def)
    from view_inv_cong [OF this] view_inv_rotate_view [OF assms(1)] show ?thesis by simp
  qed
  with m show ?thesis by blast
qed

lemma handle_event_invariant:
  assumes "view_inv s" and "paint_ok s"
  shows "\<exists>s'. handle_event e s = Some s' \<and> view_inv s' \<and> paint_ok s'"
proof (cases e)
  case (Press p)
  have "view_inv (mousePressEvent p s) = view_inv s"
    by (rule view_inv_cong) (simp_all add: mousePressEvent_effect)
  with assms Press show ?thesis by (simp add: mousePressEvent_effect)
next
  case (Move m)
  with mouseMoveEvent_invariant [OF assms] show ?thesis by simp
next
  case Release
  from mouseReleaseEvent_effect [OF assms(2)] obtain s' where
    r: "mouseReleaseEvent s = Some s'" "paint_ok s'" "viewOffset s' = viewOffset s"
      "volumeRotAngleX s' = volumeRotAngleX s"
    by blast
  from view_inv_cong [OF r(3,4)] assms(1) r(1,2) Release show ?thesis by simp
qed

lemma run_events_invariant:
  assumes "view_inv s" and "paint_ok s"
  shows "\<exists>s'. run_events evs s = Some s' \<and> view_inv s' \<and> paint_ok s'"
  using assms
proof (induction evs arbitrary: s)
  case Nil
  then show ?case by simp
next
  case (Cons e es)
  from handle_event_invariant [OF Cons.prems, of e] obtain s1 where
    one: "handle_event e s = Some s1" "view_inv s1" "paint_ok s1"
    by blast
  from Cons.IH [OF one(2,3)] one(1) show ?case by simp
qed

lemma initializeGL_effect:
  "\<exists>s. initializeGL fs True s0 = Some s \<and> viewOffset s = \<lparr>vx = 0, vy = 0, vz = 1.8\<rparr> \<and>
     volumeRotAngleX s = volumeRotAngleX s0 \<and> volumeRotAngleY s = volumeRotAngleY s0 \<and>
     volume s = volume s0 \<and> transferFunction1DTex s \<noteq> None \<and>
     rayVolumeExitPosMapFramebuffer s \<noteq> None"
  by (simp add: initializeGL_def loadTransferFunction1DTex_def
      initRayVolumeExitPosMapFramebuffer_def Let_def split: prod.splits)

lemma initializeGL_without_functions: "initializeGL fs False s0 = None"
  by (simp add: initializeGL_def)

text \<open>Nothing clamps the vertical angle: a rotating move adds the horizontal distance to
  it as 32-bit ints, so one move, of an event whose coordinates are 32-bit ints, takes it
  from any value to any 32-bit value.\<close>

lemma rotate_to_any_angle:
  assumes "paint_ok s" and "int32 n"
  shows "\<exists>ev s'. int32 (ev_x ev) \<and> int32 (ev_y ev) \<and> ev_buttons ev = LeftButton \<and>
           ev_modifiers ev = 0 \<and> mouseMoveEvent ev s = Some s' \<and> volumeRotAngleY s' = n"
proof -
  let ?ev = "\<lparr>ev_x = wrap32 (fst (lastMousePos s) + (n - volumeRotAngleY s)),
             ev_y = wrap32 (snd (lastMousePos s)),
             ev_buttons = LeftButton, ev_modifiers = 0\<rparr>"
  have b: "ev_buttons ?ev AND LeftButton \<noteq> 0" by (simp add: LeftButton_def)
  have dx: "wrap32 (ev_x ?ev - fst (lastMousePos s)) = wrap32 (n - volumeRotAngleY s)"
    by (simp add: wrap32_diff_left)
  have "wrap32 (volumeRotAngleY s + wrap32 (n - volumeRotAngleY s)) = wrap32 n"
    by (simp add: wrap32_add_right)
  also have "\<dots> = n" by (rule wrap32_int32 [OF assms(2)])
  finally have y: "wrap32 (volumeRotAngleY s + wrap32 (ev_x ?ev - fst (lastMousePos s))) = n"
    by (simp only: dx)
  from mouseMoveEvent_effect [OF assms(1), of ?ev] obtain s' where
    m: "mouseMoveEvent ?ev s = Some s'" and
    v: "(viewOffset s', volumeRotAngleX s', volumeRotAngleY s') =
       (let dx = wrap32 (ev_x ?ev - fst (lastMousePos s));
            dy = wrap32 (ev_y ?ev - snd (lastMousePos s)) in
        if ev_buttons ?ev AND LeftButton \<noteq> 0 then
          if ev_modifiers ?ev AND AltModifier \<noteq> 0
          then (viewOffset (zoom dy s), volumeRotAngleX s, volumeRotAngleY s)
          else if ev_modifiers ?ev AND ControlModifier \<noteq> 0
          then (viewOffset (pan dx dy s), volumeRotAngleX s, volumeRotAngleY s)
          else (viewOffset s, volumeRotAngleX (rotate_view dx dy s),
                wrap32 (volumeRotAngleY s + dx))
        else (viewOffset s, volumeRotAngleX s, volumeRotAngleY s))"
    by blast
  from v b have "volumeRotAngleY s' = wrap32 (volumeRotAngleY s + wrap32 (ev_x ?ev - fst (lastMousePos s)))"
    by (simp add: Let_def)
  with y have "volumeRotAngleY s' = n" by simp
  moreover have "int32 (ev_x ?ev)" "int32 (ev_y ?ev)" by (simp_all add: int32_wrap32)
  ultimately show ?thesis using m by (intro exI [of _ ?ev] exI [of _ s']) simp
qed

text \<open>At the end of the range the angle wraps around, as the 32-bit sum does.\<close>

lemma rotate_view_wraps:
  "volumeRotAngleY (rotate_view 1 0 (s\<lparr>volumeRotAngleY := 2147483647\<rparr>)) = - 2147483648"
  by (simp add: rotate_view_def Let_def wrap32_def)

subsection \<open>Loading a transfer function\<close>

lemma loadTransferFunction1DTex_effect:
  "transferFunction1DTex (loadTransferFunction1DTex fs fileName s) =
     Some \<lparr>textureId = next_name (gl s), tex_target = Target1D, tex_format = Some RGB8_UNorm,
           tex_wrap = Some Repeat, tex_min = Some Nearest, tex_mag = Some Nearest\<rparr>"
  "tex_images (gl (loadTransferFunction1DTex fs fileName s)) (next_name (gl s)) =
     (case fs fileName of None \<Rightarrow> NoImage | Some i \<Rightarrow> Image2D i)"
  "next_name (gl (loadTransferFunction1DTex fs fileName s)) = next_name (gl s) + 1"
  "volume (loadTransferFunction1DTex fs fileName s) = volume s"
  "height (loadTransferFunction1DTex fs fileName s) = height s"
  "volume3DTex (loadTransferFunction1DTex fs fileName s) = volume3DTex s"
  "rayVolumeExitPosMapFramebuffer (loadTransferFunction1DTex fs fileName s) =
     rayVolumeExitPosMapFramebuffer s"
  by (simp_all add: loadTransferFunction1DTex_def new_QOpenGLTexture_def texture_setData_def
      Let_def split: option.splits)

text \<open>
  C10. Every transfer-function load request on a widget that can paint, whatever the
  file dialog returned and whether or not an image can be read from that path, returns
  and leaves as the ramp texture a newly created 1D texture (its name is the next free
  one, so it is not the ramp held before). The new texture holds the image when one
  was read, and no image when the path is empty or unreadable.
\<close>

theorem transfer_function_always_replaced:
  assumes "paint_ok s"
  shows "\<exists>s' t. loadTransferFunctionImage fs fileName s = Some s' \<and>
     transferFunction1DTex s' = Some t \<and> textureId t = next_name (gl s) \<and>
     tex_target t = Target1D \<and>
     tex_images (gl s') (textureId t) =
       (case fs fileName of None \<Rightarrow> NoImage | Some i \<Rightarrow> Image2D i) \<and>
     (\<forall>t0. transferFunction1DTex s = Some t0 \<and> textureId t0 < next_name (gl s) \<longrightarrow>
        transferFunction1DTex s' \<noteq> transferFunction1DTex s)"
proof -
  let ?s1 = "loadTransferFunction1DTex fs fileName s"
  let ?t = "\<lparr>textureId = next_name (gl s), tex_target = Target1D, tex_format = Some RGB8_UNorm,
           tex_wrap = Some Repeat, tex_min = Some Nearest, tex_mag = Some Nearest\<rparr>"
  have ok: "paint_ok ?s1"
    using assms by (auto simp: paint_ok_def loadTransferFunction1DTex_effect)
  from paintGL_returns [OF ok] obtain s' where p: "paintGL ?s1 = Some s'" by blast
  have load: "loadTransferFunctionImage fs fileName s = Some s'"
    by (simp add: loadTransferFunctionImage_def repaint_def p)
  have tex: "transferFunction1DTex s' = Some ?t"
    by (simp add: paintGL_keeps(6) [OF p] loadTransferFunction1DTex_effect)
  have img: "tex_images (gl s') (textureId ?t) =
       (case fs fileName of None \<Rightarrow> NoImage | Some i \<Rightarrow> Image2D i)"
    by (simp add: paintGL_context_kept(2) [OF p] loadTransferFunction1DTex_effect)
  have new: "transferFunction1DTex s' \<noteq> transferFunction1DTex s"
    if "transferFunction1DTex s = Some t0 \<and> textureId t0 < next_name (gl s)" for t0
    using that tex by auto
  from load tex img new show ?thesis by auto
qed

theorem transfer_function_always_replaced_witness:
  "paint_ok loaded \<and> ramp_files [] = None \<and>
   (\<exists>s' t. loadTransferFunctionImage ramp_files [] loaded = Some s' \<and>
     transferFunction1DTex s' = Some t \<and> textureId t = 5 \<and> tex_target t = Target1D \<and>
     tex_images (gl s') 5 = NoImage \<and>
     transferFunction1DTex s' \<noteq> transferFunction1DTex loaded)"
  using transfer_function_always_replaced [OF paint_ok_loaded, of ramp_files "[]"]
    paint_ok_loaded
  by (auto simp: loaded_fields ramp_files_def)

subsection \<open>The widget never crashes\<close>

lemma initialised_paint_ok: "initialised s \<Longrightarrow> paint_ok s"
  by (auto simp: initialised_def paint_ok_def)

lemma paintGL_initialised:
  assumes "initialised s"
  shows "\<exists>s'. paintGL s = Some s' \<and> initialised s' \<and> view_inv s' = view_inv s"
proof -
  from paintGL_returns [OF initialised_paint_ok [OF assms]] obtain s' where
    p: "paintGL s = Some s'" by blast
  from assms have "initialised s'" by (simp add: initialised_def paintGL_keeps [OF p])
  moreover have "view_inv s' = view_inv s" by (simp add: view_inv_def paintGL_keeps [OF p])
  ultimately show ?thesis using p by simp
qed

lemma dataLoaded_fields:
  "height (dataLoaded v s) = height s"
  "rayVolumeExitPosMapFramebuffer (dataLoaded v s) = rayVolumeExitPosMapFramebuffer s"
  "transferFunction1DTex (dataLoaded v s) = transferFunction1DTex s"
  "volume (dataLoaded v s) = v"
  "v \<noteq> None \<Longrightarrow> volume3DTex (dataLoaded v s) \<noteq> None"
  "viewOffset (dataLoaded v s) = viewOffset s"
  "volumeRotAngleX (dataLoaded v s) = volumeRotAngleX s"
  by (cases v; simp add: dataLoaded_def loadVolume3DTex_def new_QOpenGLTexture_def Let_def)+

lemma handle_event_initialised:
  assumes "initialised s"
  shows "\<exists>s'. handle_event e s = Some s' \<and> initialised s'"
proof (cases e)
  case (Press p)
  with assms show ?thesis by (simp add: initialised_def mousePressEvent_def Let_def)
next
  case (Move m)
  have "mouseMoveEvent m s = paintGL
     ((let s = s\<lparr>numSamples := 5\<rparr>;
          dx = wrap32 (ev_x m - fst (lastMousePos s));
          dy = wrap32 (ev_y m - snd (lastMousePos s))
       in if ev_buttons m AND LeftButton \<noteq> 0 then
            (if ev_modifiers m AND AltModifier \<noteq> 0 then zoom dy s
             else if ev_modifiers m AND ControlModifier \<noteq> 0 then pan dx dy s
             else rotate_view dx dy s)
          else s)\<lparr>lastMousePos := (ev_x m, ev_y m)\<rparr>)" (is "_ = paintGL ?t")
    by (simp add: mouseMoveEvent_def repaint_def Let_def)
  moreover have "initialised ?t"
    using assms by (simp add: initialised_def zoom_def pan_def rotate_view_def Let_def)
  ultimately show ?thesis using paintGL_initialised [of ?t] Move by auto
next
  case Release
  have "initialised (s\<lparr>numSamples := tmpNumSamples s\<rparr>)"
    using assms by (simp add: initialised_def)
  from paintGL_initialised [OF this] Release show ?thesis
    by (auto simp: mouseReleaseEvent_def repaint_def)
qed

lemma call_widget_initialised:
  assumes "initialised s"
  shows "\<exists>s'. call_widget c s = Some s' \<and> initialised s'"
proof (cases c)
  case (Pointer e)
  with handle_event_initialised [OF assms] show ?thesis by simp
next
  case (Resize w h)
  with assms show ?thesis by (auto simp: initialised_def resizeGL_fields)
next
  case (DataLoaded v)
  have "volume (dataLoaded v s) = None \<or> volume3DTex (dataLoaded v s) \<noteq> None"
    by (cases "v = None") (simp_all add: dataLoaded_fields)
  with assms have "initialised (dataLoaded v s)"
    by (simp add: initialised_def dataLoaded_fields(1-3))
  with DataLoaded show ?thesis by simp
next
  case (SetNumSamples n)
  have "initialised (s\<lparr>numSamples := n\<rparr>)" using assms by (simp add: initialised_def)
  from paintGL_initialised [OF this] SetNumSamples show ?thesis
    by (auto simp: setNumSamples_def repaint_def)
next
  case (SetSampleRangeStart x)
  have "initialised (s\<lparr>sampleRangeStart := x\<rparr>)" using assms by (simp add: initialised_def)
  from paintGL_initialised [OF this] SetSampleRangeStart show ?thesis
    by (auto simp: setSampleRangeStart_def repaint_def)
next
  case (SetSampleRangeEnd x)
  have "initialised (s\<lparr>sampleRangeEnd := x\<rparr>)" using assms by (simp add: initialised_def)
  from paintGL_initialised [OF this] SetSampleRangeEnd show ?thesis
    by (auto simp: setSampleRangeEnd_def repaint_def)
next
  case (SetTechnique t)
  have "initialised (s\<lparr>technique := t\<rparr>)" using assms by (simp add: initialised_def)
  from paintGL_initialised [OF this] SetTechnique show ?thesis
    by (auto simp: setTechnique_def repaint_def)
next
  case (LoadTransferFunctionImage fs fileName)
  have "initialised (loadTransferFunction1DTex fs fileName s)"
    using assms by (simp add: initialised_def loadTransferFunction1DTex_effect)
  from paintGL_initialised [OF this] LoadTransferFunctionImage show ?thesis
    by (auto simp: loadTransferFunctionImage_def repaint_def)
next
  case Paint
  with paintGL_initialised [OF assms] show ?thesis by auto
qed

text \<open>Once initialised, the widget answers every sequence of calls without a crash, and
  can paint after each of them.\<close>

lemma run_calls_initialised:
  assumes "initialised s"
  shows "\<exists>s'. run_calls cs s = Some s' \<and> initialised s' \<and> paint_ok s'"
  using assms
proof (induction cs arbitrary: s)
  case Nil
  then show ?case by (simp add: initialised_paint_ok)
next
  case (Cons c cs)
  from call_widget_initialised [OF Cons.prems, of c] obtain s1 where
    "call_widget c s = Some s1" "initialised s1" by blast
  with Cons.IH [of s1] show ?case by simp
qed

lemma initializeGL_initialised:
  assumes "height s0 \<noteq> 0" and "volume s0 = None"
  shows "\<exists>s. initializeGL fs True s0 = Some s \<and> initialised s"
  using assms
  by (simp add: initializeGL_def initialised_def loadTransferFunction1DTex_def
      initRayVolumeExitPosMapFramebuffer_def Let_def split: prod.splits)

text \<open>No call but a pointer event touches the view state.\<close>

lemma call_widget_view_inv:
  assumes "initialised s" and "view_inv s"
  shows "\<exists>s'. call_widget c s = Some s' \<and> initialised s' \<and> view_inv s'"
proof (cases c)
  case (Pointer e)
  from handle_event_initialised [OF assms(1), of e]
    handle_event_invariant [OF assms(2) initialised_paint_ok [OF assms(1)], of e] Pointer
  show ?thesis by auto
next
  case (Resize w h)
  from call_widget_initialised [OF assms(1), of c] Resize assms(2) show ?thesis
    by (auto simp: view_inv_def resizeGL_def new_QOpenGLFramebufferObject_def)
next
  case (DataLoaded v)
  from call_widget_initialised [OF assms(1), of c] DataLoaded assms(2) show ?thesis
    by (auto simp: view_inv_def dataLoaded_fields)
next
  case (SetNumSamples n)
  have "initialised (s\<lparr>numSamples := n\<rparr>)" "view_inv (s\<lparr>numSamples := n\<rparr>)"
    using assms by (simp_all add: initialised_def view_inv_def)
  with paintGL_initialised [of "s\<lparr>numSamples := n\<rparr>"] SetNumSamples show ?thesis
    by (auto simp: setNumSamples_def repaint_def)
next
  case (SetSampleRangeStart x)
  have "initialised (s\<lparr>sampleRangeStart := x\<rparr>)" "view_inv (s\<lparr>sampleRangeStart := x\<rparr>)"
    using assms by (simp_all add: initialised_def view_inv_def)
  with paintGL_initialised [of "s\<lparr>sampleRangeStart := x\<rparr>"] SetSampleRangeStart show ?thesis
    by (auto simp: setSampleRangeStart_def repaint_def)
next
  case (SetSampleRangeEnd x)
  have "initialised (s\<lparr>sampleRangeEnd := x\<rparr>)" "view_inv (s\<lparr>sampleRangeEnd := x\<rparr>)"
    using assms by (simp_all add: initialised_def view_inv_def)
  with paintGL_initialised [of "s\<lparr>sampleRangeEnd := x\<rparr>"] SetSampleRangeEnd show ?thesis
    by (auto simp: setSampleRangeEnd_def repaint_def)
next
  case (SetTechnique t)
  have "initialised (s\<lparr>technique := t\<rparr>)" "view_inv (s\<lparr>technique := t\<rparr>)"
    using assms by (simp_all add: initialised_def view_inv_def)
  with paintGL_initialised [of "s\<lparr>technique := t\<rparr>"] SetTechnique show ?thesis
    by (auto simp: setTechnique_def repaint_def)
next
  case (LoadTransferFunctionImage fs fileName)
  have "initialised (loadTransferFunction1DTex fs fileName s)"
    "view_inv (loadTransferFunction1DTex fs fileName s)"
    using assms
    by (simp_all add: initialised_def view_inv_def loadTransferFunction1DTex_effect
        loadTransferFunction1DTex_def Let_def split: prod.splits)
  with paintGL_initialised [of "loadTransferFunction1DTex fs fileName s"]
    LoadTransferFunctionImage show ?thesis
    by (auto simp: loadTransferFunctionImage_def repaint_def)
next
  case Paint
  with paintGL_initialised [OF assms(1)] assms(2) show ?thesis by auto
qed

lemma run_calls_view_inv:
  assumes "initialised s" and "view_inv s"
  shows "\<exists>s'. run_calls cs s = Some s' \<and> initialised s' \<and> view_inv s'"
  using assms
proof (induction cs arbitrary: s)
  case Nil
  then show ?case by simp
next
  case (Cons c cs)
  from call_widget_view_inv [OF Cons.prems, of c] obtain s1 where
    "call_widget c s = Some s1" "initialised s1" "view_inv s1" by blast
  with Cons.IH [of s1] show ?case by simp
qed

subsection \<open>The view state over the life of the widget\<close>

text \<open>
  C7. The bounds on the view state (horizontal rotation angle in [-90, 90], x and y of
  the view offset in [-1, 1], z in [0.8, 3]) hold in the initial state, which
  \<open>initializeGL\<close> leaves with offset (0, 0, 1.8) when the angles start at 0. Every
  sequence of pointer events run from a state in which they hold returns and ends in a
  state in which they hold, and so does every sequence of calls of any kind on an
  initialised widget; the pointer coordinates, their differences and the angle sums are
  32-bit ints that wrap around. The vertical rotation angle has no bound of its own:
  nothing clamps it, and one rotating move, of an event whose coordinates are 32-bit
  ints, takes it from any value to any value of its 32-bit type.
\<close>

theorem view_state_invariant:
  "(volumeRotAngleX s0 = 0 \<and> volumeRotAngleY s0 = 0 \<and> volume s0 = None \<longrightarrow>
      (\<exists>s. initializeGL fs True s0 = Some s \<and>
           viewOffset s = \<lparr>vx = 0, vy = 0, vz = 1.8\<rparr> \<and>
           volumeRotAngleX s = 0 \<and> volumeRotAngleY s = 0 \<and> view_inv s \<and> paint_ok s \<and>
           (height s0 \<noteq> 0 \<longrightarrow> initialised s))) \<and>
   (view_inv s \<and> paint_ok s \<longrightarrow>
      (\<exists>s'. run_events evs s = Some s' \<and> view_inv s' \<and> paint_ok s')) \<and>
   (view_inv s \<and> initialised s \<longrightarrow>
      (\<exists>s'. run_calls cs s = Some s' \<and> view_inv s' \<and> initialised s')) \<and>
   (paint_ok s \<and> int32 n \<longrightarrow>
      (\<exists>ev s'. int32 (ev_x ev) \<and> int32 (ev_y ev) \<and>
         mouseMoveEvent ev s = Some s' \<and> volumeRotAngleY s' = n))"
proof (intro conjI impI)
  assume a: "volumeRotAngleX s0 = 0 \<and> volumeRotAngleY s0 = 0 \<and> volume s0 = None"
  from initializeGL_effect [of fs s0] obtain s1 where
    i: "initializeGL fs True s0 = Some s1" "viewOffset s1 = \<lparr>vx = 0, vy = 0, vz = 1.8\<rparr>"
      "volumeRotAngleX s1 = volumeRotAngleX s0" "volumeRotAngleY s1 = volumeRotAngleY s0"
      "volume s1 = volume s0"
    by blast
  from i a have inv: "view_inv s1" "paint_ok s1" by (simp_all add: view_inv_def paint_ok_def)
  have "initialised s1" if "height s0 \<noteq> 0"
    using initializeGL_initialised [OF that, of fs] a i(1) by auto
  with i a inv show "\<exists>s. initializeGL fs True s0 = Some s \<and>
           viewOffset s = \<lparr>vx = 0, vy = 0, vz = 1.8\<rparr> \<and>
           volumeRotAngleX s = 0 \<and> volumeRotAngleY s = 0 \<and> view_inv s \<and> paint_ok s \<and>
           (height s0 \<noteq> 0 \<longrightarrow> initialised s)"
    by simp
next
  assume "view_inv s \<and> paint_ok s"
  then show "\<exists>s'. run_events evs s = Some s' \<and> view_inv s' \<and> paint_ok s'"
    using run_events_invariant by blast
next
  assume "view_inv s \<and> initialised s"
  then show "\<exists>s'. run_calls cs s = Some s' \<and> view_inv s' \<and> initialised s'"
    using run_calls_view_inv by blast
next
  assume "paint_ok s \<and> int32 n"
  then have "paint_ok s" and "int32 n" by simp_all
  from rotate_to_any_angle [OF this]
  show "\<exists>ev s'. int32 (ev_x ev) \<and> int32 (ev_y ev) \<and>
         mouseMoveEvent ev s = Some s' \<and> volumeRotAngleY s' = n"
    by blast
qed

theorem view_state_invariant_witness:
  "volumeRotAngleX constructed = 0 \<and> volumeRotAngleY constructed = 0 \<and>
   volume constructed = None \<and> height constructed \<noteq> 0 \<and>
   (\<exists>s. initializeGL ramp_files True constructed = Some s \<and>
        viewOffset s = \<lparr>vx = 0, vy = 0, vz = 1.8\<rparr> \<and>
        volumeRotAngleX s = 0 \<and> volumeRotAngleY s = 0 \<and> view_inv s \<and> paint_ok s \<and>
        initialised s) \<and>
   view_inv loaded \<and> paint_ok loaded \<and> initialised loaded \<and>
   (\<exists>s'. run_events
           [Press \<lparr>ev_x = 10, ev_y = 10, ev_buttons = 1, ev_modifiers = 0\<rparr>,
            Move \<lparr>ev_x = 500, ev_y = 210, ev_buttons = 1, ev_modifiers = 0\<rparr>,
            Move \<lparr>ev_x = 500, ev_y = 10, ev_buttons = 1, ev_modifiers = 0x08000000\<rparr>,
            Move \<lparr>ev_x = 900, ev_y = 10, ev_buttons = 1, ev_modifiers = 0x04000000\<rparr>,
            Release] loaded = Some s' \<and> view_inv s' \<and> paint_ok s') \<and>
   (\<exists>s'. run_calls
           [Resize 1024 768,
            Pointer (Press \<lparr>ev_x = 10, ev_y = 10, ev_buttons = 1, ev_modifiers = 0\<rparr>),
            Pointer (Move \<lparr>ev_x = 500, ev_y = 210, ev_buttons = 1, ev_modifiers = 0\<rparr>),
            DataLoaded None, SetNumSamples 0,
            Pointer (Move \<lparr>ev_x = 500, ev_y = 10, ev_buttons = 1, ev_modifiers = 0x08000000\<rparr>),
            Pointer Release, Paint] loaded = Some s' \<and> view_inv s' \<and> initialised s') \<and>
   int32 1000 \<and>
   (\<exists>ev s'. int32 (ev_x ev) \<and> int32 (ev_y ev) \<and>
      mouseMoveEvent ev loaded = Some s' \<and> volumeRotAngleY s' = 1000)"
  using view_state_invariant [of constructed ramp_files loaded
      "[Press \<lparr>ev_x = 10, ev_y = 10, ev_buttons = 1, ev_modifiers = 0\<rparr>,
        Move \<lparr>ev_x = 500, ev_y = 210, ev_buttons = 1, ev_modifiers = 0\<rparr>,
        Move \<lparr>ev_x = 500, ev_y = 10, ev_buttons = 1, ev_modifiers = 0x08000000\<rparr>,
        Move \<lparr>ev_x = 900, ev_y = 10, ev_buttons = 1, ev_modifiers = 0x04000000\<rparr>,
        Release]"
      "[Resize 1024 768,
        Pointer (Press \<lparr>ev_x = 10, ev_y = 10, ev_buttons = 1, ev_modifiers = 0\<rparr>),
        Pointer (Move \<lparr>ev_x = 500, ev_y = 210, ev_buttons = 1, ev_modifiers = 0\<rparr>),
        DataLoaded None, SetNumSamples 0,
        Pointer (Move \<lparr>ev_x = 500, ev_y = 10, ev_buttons = 1, ev_modifiers = 0x08000000\<rparr>),
        Pointer Release, Paint]" 1000]
    view_inv_loaded paint_ok_loaded initialised_loaded
  by (simp add: constructed_def int32_def)

subsection \<open>Loading a null or an empty volume\<close>

lemma dataLoaded_null: "dataLoaded None s = s\<lparr>volume := None\<rparr>"
  by (simp add: dataLoaded_def loadVolume3DTex_def)

lemma dataLoaded_grid:
  "volume (dataLoaded (Some v) s) = Some v"
  "volume3DTex (dataLoaded (Some v) s) =
     Some \<lparr>textureId = next_name (gl s), tex_target = Target3D, tex_format = Some R32F,
           tex_wrap = Some Repeat, tex_min = Some Linear, tex_mag = Some Linear\<rparr>"
  "tex_images (gl (dataLoaded (Some v) s)) (next_name (gl s)) =
     Image3D (getWidth v) (getHeight v) (getDepth v) (getVoxels v)"
  "draws (gl (dataLoaded (Some v) s)) = draws (gl s)"
  by (simp_all add: dataLoaded_def loadVolume3DTex_def new_QOpenGLTexture_def
      texture_bind_def glBindTexture_def glTexImage3D_def Let_def)

text \<open>A paint without a volume, and what it leaves as it was.\<close>

lemma paint_without_volume:
  assumes "volume t = None"
  shows "\<exists>s'. paintGL t = Some s' \<and> volume s' = None \<and> volume3DTex s' = volume3DTex t \<and>
           backgroundColor s' = backgroundColor t \<and> draws (gl s') = draws (gl t) \<and>
           framebuffer (gl s') = framebuffer (gl t)"
proof -
  from paintGL_no_volume [OF assms] obtain s' where
    p: "paintGL t = Some s'" "draws (gl s') = draws (gl t)"
      "framebuffer (gl s') = framebuffer (gl t)"
    by blast
  from paintGL_keeps(3,4,5) [OF p(1)] assms p show ?thesis by simp
qed

text \<open>While there is no volume, no call but one that loads a volume makes a draw call.\<close>

lemma call_without_volume:
  assumes "volume s = None" and "\<not> loads_volume c"
  shows "\<exists>s'. call_widget c s = Some s' \<and> volume s' = None \<and>
           volume3DTex s' = volume3DTex s \<and> backgroundColor s' = backgroundColor s \<and>
           draws (gl s') = draws (gl s) \<and> framebuffer (gl s') = framebuffer (gl s)"
proof (cases c)
  case (Pointer e)
  show ?thesis
  proof (cases e)
    case (Press p)
    with Pointer assms(1) show ?thesis by (simp add: mousePressEvent_def Let_def)
  next
    case (Move m)
    have "mouseMoveEvent m s = paintGL
     ((let s = s\<lparr>numSamples := 5\<rparr>;
          dx = wrap32 (ev_x m - fst (lastMousePos s));
          dy = wrap32 (ev_y m - snd (lastMousePos s))
       in if ev_buttons m AND LeftButton \<noteq> 0 then
            (if ev_modifiers m AND AltModifier \<noteq> 0 then zoom dy s
             else if ev_modifiers m AND ControlModifier \<noteq> 0 then pan dx dy s
             else rotate_view dx dy s)
          else s)\<lparr>lastMousePos := (ev_x m, ev_y m)\<rparr>)" (is "_ = paintGL ?t")
      by (simp add: mouseMoveEvent_def repaint_def Let_def)
    moreover have "volume ?t = None" "volume3DTex ?t = volume3DTex s"
      "backgroundColor ?t = backgroundColor s" "gl ?t = gl s"
      using assms(1) by (simp_all add: zoom_def pan_def rotate_view_def Let_def)
    ultimately show ?thesis using paint_without_volume [of ?t] Pointer Move by auto
  next
    case Release
    from paint_without_volume [of "s\<lparr>numSamples := tmpNumSamples s\<rparr>"] assms(1) Pointer Release
    show ?thesis by (auto simp: mouseReleaseEvent_def repaint_def)
  qed
next
  case (Resize w h)
  with assms(1) show ?thesis by (simp add: resizeGL_def new_QOpenGLFramebufferObject_def)
next
  case (DataLoaded v)
  with assms(2) have "v = None" by (cases v) simp_all
  with DataLoaded assms(1) show ?thesis by (simp add: dataLoaded_null)
next
  case (SetNumSamples n)
  from paint_without_volume [of "s\<lparr>numSamples := n\<rparr>"] assms(1) SetNumSamples
  show ?thesis by (auto simp: setNumSamples_def repaint_def)
next
  case (SetSampleRangeStart x)
  from paint_without_volume [of "s\<lparr>sampleRangeStart := x\<rparr>"] assms(1) SetSampleRangeStart
  show ?thesis by (auto simp: setSampleRangeStart_def repaint_def)
next
  case (SetSampleRangeEnd x)
  from paint_without_volume [of "s\<lparr>sampleRangeEnd := x\<rparr>"] assms(1) SetSampleRangeEnd
  show ?thesis by (auto simp: setSampleRangeEnd_def repaint_def)
next
  case (SetTechnique t)
  from paint_without_volume [of "s\<lparr>technique := t\<rparr>"] assms(1) SetTechnique
  show ?thesis by (auto simp: setTechnique_def repaint_def)
next
  case (LoadTransferFunctionImage fs fileName)
  let ?t = "loadTransferFunction1DTex fs fileName s"
  have "volume ?t = None" "volume3DTex ?t = volume3DTex s"
    "backgroundColor ?t = backgroundColor s" "draws (gl ?t) = draws (gl s)"
    "framebuffer (gl ?t) = framebuffer (gl s)"
    using assms(1)
    by (simp_all add: loadTransferFunction1DTex_def new_QOpenGLTexture_def texture_setData_def
        Let_def split: option.splits)
  with paint_without_volume [of ?t] LoadTransferFunctionImage show ?thesis
    by (auto simp: loadTransferFunctionImage_def repaint_def)
next
  case Paint
  with paint_without_volume [OF assms(1)] show ?thesis by auto
qed

lemma run_calls_without_volume:
  assumes "volume s = None" and "loads_no_volume cs"
  shows "\<exists>s'. run_calls cs s = Some s' \<and> volume s' = None \<and>
           volume3DTex s' = volume3DTex s \<and> backgroundColor s' = backgroundColor s \<and>
           draws (gl s') = draws (gl s) \<and> framebuffer (gl s') = framebuffer (gl s)"
  using assms
proof (induction cs arbitrary: s)
  case Nil
  then show ?case by simp
next
  case (Cons c cs)
  from Cons.prems(2) have c: "\<not> loads_volume c" and cs: "loads_no_volume cs"
    by (auto simp: loads_no_volume_def split: if_splits)
  from call_without_volume [OF Cons.prems(1) c] obtain s1 where
    one: "call_widget c s = Some s1" "volume s1 = None" "volume3DTex s1 = volume3DTex s"
      "backgroundColor s1 = backgroundColor s" "draws (gl s1) = draws (gl s)"
      "framebuffer (gl s1) = framebuffer (gl s)"
    by blast
  from Cons.IH [OF one(2) cs] one show ?case by simp
qed

text \<open>
  C4, as the code has it. \<open>dataLoaded\<close> with a null volume stores the null pointer as
  the volume and changes nothing else: the texture object of the volume loaded before
  stays where it was and nothing is uploaded. From then on, through every sequence of
  calls that loads no volume, the widget returns and every paint makes no draw call: it
  only clears the bound framebuffer, to the colour \<open>paintGL\<close> computes from the
  background colour, each channel over 256. A grid that is not null, empty or not, is
  no failure to the code: \<open>dataLoaded\<close> stores it, creates a new texture and uploads
  the grid to it, and the next paint of an initialised widget runs both passes.
\<close>

theorem null_volume_is_stored:
  "dataLoaded None s = s\<lparr>volume := None\<rparr> \<and>
   volume (dataLoaded None s) = None \<and>
   volume3DTex (dataLoaded None s) = volume3DTex s \<and>
   tex_images (gl (dataLoaded None s)) = tex_images (gl s) \<and>
   (loads_no_volume cs \<longrightarrow>
      (\<exists>s1 s'. run_calls cs (dataLoaded None s) = Some s1 \<and> paintGL s1 = Some s' \<and>
         volume s' = None \<and> volume3DTex s' = volume3DTex s \<and>
         draws (gl s') = draws (gl s) \<and>
         surfaces (gl s') (framebuffer (gl s)) =
           \<lparr>cleared = Some (case backgroundColor s of (r, g, b) \<Rightarrow>
                (real_of_int r / 256, real_of_int g / 256, real_of_int b / 256, 1)),
            drawn = []\<rparr>)) \<and>
   volume (dataLoaded (Some v) s) = Some v \<and>
   (\<exists>t. volume3DTex (dataLoaded (Some v) s) = Some t \<and> textureId t = next_name (gl s) \<and>
        tex_images (gl (dataLoaded (Some v) s)) (textureId t) =
          Image3D (getWidth v) (getHeight v) (getDepth v) (getVoxels v)) \<and>
   (initialised s \<longrightarrow>
      (\<exists>s' d1 d2. paintGL (dataLoaded (Some v) s) = Some s' \<and>
         draws (gl s') = draws (gl s) @ [d1, d2] \<and>
         d_program d1 = Some RayVolumeExitPosMapShader \<and>
         d_program d2 = Some RaycastShader \<and> d_target d2 = Screen))"
proof -
  have later: "\<exists>s1 s'. run_calls cs (dataLoaded None s) = Some s1 \<and> paintGL s1 = Some s' \<and>
         volume s' = None \<and> volume3DTex s' = volume3DTex s \<and>
         draws (gl s') = draws (gl s) \<and>
         surfaces (gl s') (framebuffer (gl s)) =
           \<lparr>cleared = Some (case backgroundColor s of (r, g, b) \<Rightarrow>
                (real_of_int r / 256, real_of_int g / 256, real_of_int b / 256, 1)),
            drawn = []\<rparr>"
    if "loads_no_volume cs"
  proof -
    have v: "volume (s\<lparr>volume := None\<rparr>) = None" by simp
    from run_calls_without_volume [OF v that] obtain s1 where
      r: "run_calls cs (s\<lparr>volume := None\<rparr>) = Some s1" "volume s1 = None"
        "volume3DTex s1 = volume3DTex s" "backgroundColor s1 = backgroundColor s"
        "draws (gl s1) = draws (gl s)" "framebuffer (gl s1) = framebuffer (gl s)"
      by auto
    from paintGL_no_volume [OF r(2)] obtain s' where
      p: "paintGL s1 = Some s'" "draws (gl s') = draws (gl s1)"
        "surfaces (gl s') (framebuffer (gl s1)) =
           \<lparr>cleared = Some (clear_color (gl s')), drawn = []\<rparr>"
        "clear_color (gl s') =
           (case backgroundColor s1 of (r, g, b) \<Rightarrow>
              (real_of_int r / 256, real_of_int g / 256, real_of_int b / 256, 1))"
      by blast
    from paintGL_keeps(4,5) [OF p(1)] have "volume s' = None" "volume3DTex s' = volume3DTex s"
      by (simp_all add: r)
    with r(1) p show ?thesis by (simp add: dataLoaded_null r(4,5,6))
  qed
  have both: "\<exists>s' d1 d2. paintGL (dataLoaded (Some v) s) = Some s' \<and>
         draws (gl s') = draws (gl s) @ [d1, d2] \<and>
         d_program d1 = Some RayVolumeExitPosMapShader \<and>
         d_program d2 = Some RaycastShader \<and> d_target d2 = Screen"
    if "initialised s"
  proof -
    let ?s = "dataLoaded (Some v) s"
    from that obtain f where f: "rayVolumeExitPosMapFramebuffer ?s = Some f"
      by (auto simp: initialised_def dataLoaded_fields)
    have vol: "volume ?s \<noteq> None" by (simp add: dataLoaded_grid)
    have ok: "paint_ok ?s"
      using that by (simp add: paint_ok_def initialised_def dataLoaded_fields dataLoaded_grid)
    from paintGL_passes [OF vol ok f] obtain s' d1 d2 where
      "paintGL ?s = Some s'" "draws (gl s') = draws (gl ?s) @ [d1, d2]"
      "d_program d1 = Some RayVolumeExitPosMapShader"
      "d_program d2 = Some RaycastShader" "d_target d2 = Screen"
      by blast
    then show ?thesis by (auto simp: dataLoaded_grid)
  qed
  have grid: "\<exists>t. volume3DTex (dataLoaded (Some v) s) = Some t \<and> textureId t = next_name (gl s) \<and>
        tex_images (gl (dataLoaded (Some v) s)) (textureId t) =
          Image3D (getWidth v) (getHeight v) (getDepth v) (getVoxels v)"
    by (simp add: dataLoaded_grid)
  from later both grid show ?thesis by (simp add: dataLoaded_null dataLoaded_grid(1))
qed

theorem null_volume_is_stored_witness:
  "loads_no_volume
     [Paint, Resize 1024 768, SetNumSamples 7, DataLoaded None,
      Pointer (Move \<lparr>ev_x = 40, ev_y = 30, ev_buttons = 0, ev_modifiers = 0\<rparr>)] \<and>
   initialised loaded \<and>
   (\<exists>s1 s'. run_calls
        [Paint, Resize 1024 768, SetNumSamples 7, DataLoaded None,
         Pointer (Move \<lparr>ev_x = 40, ev_y = 30, ev_buttons = 0, ev_modifiers = 0\<rparr>)]
        (dataLoaded None loaded) = Some s1 \<and> paintGL s1 = Some s' \<and>
      volume s' = None \<and> volume3DTex s' = volume3DTex loaded \<and> draws (gl s') = [] \<and>
      surfaces (gl s') Screen =
        \<lparr>cleared = Some (255 / 256, 255 / 256, 255 / 256, 1), drawn = []\<rparr>) \<and>
   volume (dataLoaded (Some empty_grid) loaded) = Some empty_grid \<and>
   (\<exists>s' d1 d2. paintGL (dataLoaded (Some empty_grid) loaded) = Some s' \<and>
      draws (gl s') = [d1, d2] \<and> d_program d2 = Some RaycastShader \<and> d_target d2 = Screen)"
proof -
  let ?cs = "[Paint, Resize 1024 768, SetNumSamples 7, DataLoaded None,
      Pointer (Move \<lparr>ev_x = 40, ev_y = 30, ev_buttons = 0, ev_modifiers = 0\<rparr>)]"
  have nl: "loads_no_volume ?cs" by (simp add: loads_no_volume_def)
  note t = null_volume_is_stored [of loaded ?cs empty_grid]
  from t nl have "\<exists>s1 s'. run_calls ?cs (dataLoaded None loaded) = Some s1 \<and>
      paintGL s1 = Some s' \<and> volume s' = None \<and> volume3DTex s' = volume3DTex loaded \<and>
      draws (gl s') = draws (gl loaded) \<and>
      surfaces (gl s') (framebuffer (gl loaded)) =
        \<lparr>cleared = Some (case backgroundColor loaded of (r, g, b) \<Rightarrow>
             (real_of_int r / 256, real_of_int g / 256, real_of_int b / 256, 1)),
         drawn = []\<rparr>"
    by blast
  then have a: "\<exists>s1 s'. run_calls ?cs (dataLoaded None loaded) = Some s1 \<and>
      paintGL s1 = Some s' \<and> volume s' = None \<and> volume3DTex s' = volume3DTex loaded \<and>
      draws (gl s') = [] \<and>
      surfaces (gl s') Screen =
        \<lparr>cleared = Some (255 / 256, 255 / 256, 255 / 256, 1), drawn = []\<rparr>"
    by (simp add: loaded_fields(4,16,18) del: run_calls.simps)
  from t initialised_loaded have "\<exists>s' d1 d2. paintGL (dataLoaded (Some empty_grid) loaded) = Some s' \<and>
      draws (gl s') = draws (gl loaded) @ [d1, d2] \<and>
      d_program d1 = Some RayVolumeExitPosMapShader \<and>
      d_program d2 = Some RaycastShader \<and> d_target d2 = Screen"
    by blast
  then have b: "\<exists>s' d1 d2. paintGL (dataLoaded (Some empty_grid) loaded) = Some s' \<and>
      draws (gl s') = [d1, d2] \<and> d_program d2 = Some RaycastShader \<and> d_target d2 = Screen"
    by (auto simp: loaded_fields(16))
  from t have c: "volume (dataLoaded (Some empty_grid) loaded) = Some empty_grid" by blast
  from nl initialised_loaded a b c show ?thesis by blast
qed

text \<open>C4 as stated fails twice. After \<open>dataLoaded\<close> of the null pointer on a widget that
  holds a volume, the stored volume is no longer the one held before. After
  \<open>dataLoaded\<close> of an empty grid that is not null, the stored volume and its texture
  are replaced as well, and the next paint makes the two draw calls of the passes
  instead of showing the background only.\<close>

theorem null_volume_replaces_stored_volume:
  "volume (dataLoaded None loaded) \<noteq> volume loaded \<and>
   volume (dataLoaded (Some empty_grid) loaded) \<noteq> volume loaded \<and>
   volume3DTex (dataLoaded (Some empty_grid) loaded) \<noteq> volume3DTex loaded \<and>
   draw_count loaded = 0 \<and>
   map_option draw_count (paintGL (dataLoaded (Some empty_grid) loaded)) = Some 2"
proof -
  let ?s = "dataLoaded (Some empty_grid) loaded"
  from initialised_loaded obtain f where f: "rayVolumeExitPosMapFramebuffer ?s = Some f"
    by (auto simp: initialised_def dataLoaded_fields)
  have vol: "volume ?s \<noteq> None" by (simp add: dataLoaded_grid)
  have ok: "paint_ok ?s"
    using initialised_loaded
    by (simp add: paint_ok_def initialised_def dataLoaded_fields dataLoaded_grid)
  from paintGL_passes [OF vol ok f] obtain s' d1 d2 where
    "paintGL ?s = Some s'" "draws (gl s') = draws (gl ?s) @ [d1, d2]"
    by blast
  then have "map_option draw_count (paintGL ?s) = Some 2"
    by (simp add: draw_count_def dataLoaded_grid loaded_fields)
  then show ?thesis
    by (simp add: dataLoaded_null dataLoaded_grid loaded_fields draw_count_def
        cube2_def empty_grid_def)
qed

end
